theory Spec2Isabelle
  imports Complex_Main
begin

section \<open>JavaScript values\<close>

text \<open>
  The handlers of the gateway work on parsed JSON documents and on the values JavaScript
  adds to them: \<open>undefined\<close>, and the built-in functions that a value inherits from
  its prototype (a function is its name and its \<open>length\<close>). A string is the list of
  its code units, one \<open>char\<close> each (the code units below 256); a number is its
  (finite) numeric value; an object is the list of its own properties, the first entry of
  a name being the property. A thrown \<open>Error\<close> is a value with its \<open>message\<close>
  and its \<open>code\<close> property (\<open>undefined\<close> on errors that have none).
\<close>

datatype js =
    JUndefined
  | JNull
  | JBool bool
  | JNum real
  | JStr string
  | JArr "js list"
  | JObj "(string \<times> js) list"
  | JFun string nat

datatype exn = Exn (message: string) (code: js)

definition bindE :: "exn + 'a \<Rightarrow> ('a \<Rightarrow> exn + 'b) \<Rightarrow> exn + 'b" where
  "bindE m f = (case m of Inl e \<Rightarrow> Inl e | Inr v \<Rightarrow> f v)"

fun mapE :: "('a \<Rightarrow> exn + 'b) \<Rightarrow> 'a list \<Rightarrow> exn + 'b list" where
  "mapE f [] = Inr []"
| "mapE f (x # xs) =
     (case f x of
        Inl e \<Rightarrow> Inl e
      | Inr y \<Rightarrow> (case mapE f xs of Inl e \<Rightarrow> Inl e | Inr ys \<Rightarrow> Inr (y # ys)))"

text \<open>Truthiness, as \<open>!v\<close>, \<open>v || w\<close>, \<open>v && w\<close> and \<open>v ? a : b\<close> read it.\<close>

fun truthy :: "js \<Rightarrow> bool" where
  "truthy JUndefined = False"
| "truthy JNull = False"
| "truthy (JBool b) = b"
| "truthy (JNum n) = (n \<noteq> 0)"
| "truthy (JStr s) = (s \<noteq> [])"
| "truthy (JArr xs) = True"
| "truthy (JObj kvs) = True"
| "truthy (JFun f n) = True"

text \<open>\<open>a || b\<close> for an operand \<open>b\<close> that cannot throw.\<close>

definition js_or :: "js \<Rightarrow> js \<Rightarrow> js" where
  "js_or a b = (if truthy a then a else b)"

definition nullish :: "js \<Rightarrow> bool" where
  "nullish v = (v = JUndefined \<or> v = JNull)"

text \<open>
  The \<open>TypeError\<close> of reading property \<open>k\<close> of \<open>undefined\<close> or \<open>null\<close>, and of
  calling a method the value does not have; the message texts are V8's.
\<close>

definition cannot_read :: "js \<Rightarrow> string \<Rightarrow> exn" where
  "cannot_read v k =
     Exn (''Cannot read properties of '' @ (if v = JNull then ''null'' else ''undefined'')
          @ '' (reading '' @ [CHR 0x27] @ k @ [CHR 0x27] @ '')'') JUndefined"

definition not_a_function :: "string \<Rightarrow> exn" where
  "not_a_function expr = Exn (expr @ '' is not a function'') JUndefined"

text \<open>
  \<open>v.k\<close>, for the property names the handlers read. \<open>length\<close> is an own property
  of arrays, strings and functions, and \<open>name\<close> of functions. Of the other names
  one is inherited from a prototype: \<open>entries\<close>, by every array, from
  \<open>Array.prototype\<close>.
\<close>

fun get :: "js \<Rightarrow> string \<Rightarrow> exn + js" where
  "get JUndefined k = Inl (cannot_read JUndefined k)"
| "get JNull k = Inl (cannot_read JNull k)"
| "get (JObj kvs) k = Inr (case map_of kvs k of Some v \<Rightarrow> v | None \<Rightarrow> JUndefined)"
| "get (JArr xs) k =
     Inr (if k = ''length'' then JNum (of_nat (length xs))
          else if k = ''entries'' then JFun ''entries'' 0
          else JUndefined)"
| "get (JStr s) k = Inr (if k = ''length'' then JNum (of_nat (length s)) else JUndefined)"
| "get (JBool b) k = Inr JUndefined"
| "get (JNum n) k = Inr JUndefined"
| "get (JFun f n) k =
     Inr (if k = ''length'' then JNum (of_nat n)
          else if k = ''name'' then JStr f
          else JUndefined)"

text \<open>\<open>v?.k\<close>: \<open>undefined\<close> when \<open>v\<close> is \<open>undefined\<close> or \<open>null\<close>.\<close>

definition opt_prop :: "js \<Rightarrow> string \<Rightarrow> js" where
  "opt_prop v k = (case get v k of Inl e \<Rightarrow> JUndefined | Inr w \<Rightarrow> w)"

section \<open>The environment of a request\<close>

text \<open>
  What a handler calls and does not define: the built-ins \<open>JSON.parse\<close> and the
  conversions between strings and numbers, the extractor (\<open>ytDlp.getVideoInfo\<close>,
  \<open>ytDlp.execStream\<close>) and the authenticated listing API (\<open>youtube.playlists.list\<close>
  of the client made by \<open>getYouTubeClient\<close> for an access token). A rejected promise
  and a thrown exception are \<open>Inl\<close>. \<open>StringToNumber\<close> is \<open>None\<close> for \<open>NaN\<close>.
  \<open>execStream\<close> gives the events the stream will emit.
\<close>

datatype api_query =
    ListMine "string list" nat
  | ListById "string list" "string list"

datatype event = Data string | StreamError exn | End

datatype call =
    GetVideoInfo "string list"
  | PlaylistsList string api_query
  | ExecStream "string list"
  | GetInfo string

record env =
  JSON_parse :: "string \<Rightarrow> exn + js"
  StringToNumber :: "string \<Rightarrow> real option"
  NumberToString :: "real \<Rightarrow> string"
  getVideoInfo :: "string list \<Rightarrow> exn + js"
  playlists_list :: "string \<Rightarrow> api_query \<Rightarrow> exn + js"
  execStream :: "string list \<Rightarrow> exn + event list"

subsection \<open>Conversions\<close>

fun join_comma :: "string list \<Rightarrow> string" where
  "join_comma [] = []"
| "join_comma [s] = s"
| "join_comma (s # t # ts) = s @ '','' @ join_comma (t # ts)"

fun ToString :: "(real \<Rightarrow> string) \<Rightarrow> js \<Rightarrow> string" where
  "ToString n2s JUndefined = ''undefined''"
| "ToString n2s JNull = ''null''"
| "ToString n2s (JBool b) = (if b then ''true'' else ''false'')"
| "ToString n2s (JNum n) = n2s n"
| "ToString n2s (JStr s) = s"
| "ToString n2s (JArr xs) =
     join_comma (map (\<lambda>x. if x = JUndefined \<or> x = JNull then [] else ToString n2s x) xs)"
| "ToString n2s (JObj kvs) = ''[object Object]''"
| "ToString n2s (JFun f n) = ''function '' @ f @ ''() { [native code] }''"

definition ToNumber :: "env \<Rightarrow> js \<Rightarrow> real option" where
  "ToNumber env v =
     (case v of
        JUndefined \<Rightarrow> None
      | JNull \<Rightarrow> Some 0
      | JBool b \<Rightarrow> Some (if b then 1 else 0)
      | JNum n \<Rightarrow> Some n
      | JStr s \<Rightarrow> StringToNumber env s
      | _ \<Rightarrow> StringToNumber env (ToString (NumberToString env) v))"

text \<open>\<open>v > 0\<close> and \<open>v - 1\<close>.\<close>

definition gt_zero :: "env \<Rightarrow> js \<Rightarrow> bool" where
  "gt_zero env v = (case ToNumber env v of None \<Rightarrow> False | Some n \<Rightarrow> 0 < n)"

definition minus_one :: "env \<Rightarrow> js \<Rightarrow> real option" where
  "minus_one env v = map_option (\<lambda>n. n - 1) (ToNumber env v)"

text \<open>
  \<open>v[i]\<close> for a number \<open>i\<close> (\<open>None\<close> is \<open>NaN\<close>): an element of an array, a code unit
  of a string, the property named by the number's text of an object.
\<close>

definition array_index :: "real option \<Rightarrow> nat option" where
  "array_index i =
     (case i of
        None \<Rightarrow> None
      | Some r \<Rightarrow> if 0 \<le> r \<and> r = of_int \<lfloor>r\<rfloor> then Some (nat \<lfloor>r\<rfloor>) else None)"

definition member :: "env \<Rightarrow> js \<Rightarrow> real option \<Rightarrow> exn + js" where
  "member env v i =
     (let key = (case i of None \<Rightarrow> ''NaN'' | Some r \<Rightarrow> NumberToString env r) in
      case v of
        JUndefined \<Rightarrow> Inl (cannot_read v key)
      | JNull \<Rightarrow> Inl (cannot_read v key)
      | JArr xs \<Rightarrow>
          Inr (case array_index i of
                 Some n \<Rightarrow> if n < length xs then xs ! n else JUndefined
               | None \<Rightarrow> JUndefined)
      | JStr s \<Rightarrow>
          Inr (case array_index i of
                 Some n \<Rightarrow> if n < length s then JStr [s ! n] else JUndefined
               | None \<Rightarrow> JUndefined)
      | JObj kvs \<Rightarrow> Inr (case map_of kvs key of Some w \<Rightarrow> w | None \<Rightarrow> JUndefined)
      | _ \<Rightarrow> Inr JUndefined)"

section \<open>Responses\<close>

text \<open>
  A JSON reply is its status code and the object given to \<open>res.json\<close>; a property whose
  value is \<open>undefined\<close> is one that the serialised body leaves out.
\<close>

record reply =
  status :: nat
  body :: js

definition ok :: "js \<Rightarrow> reply" where
  "ok b = \<lparr>status = 200, body = b\<rparr>"

definition missing_parameter :: "string \<Rightarrow> reply" where
  "missing_parameter name =
     \<lparr>status = 400, body = JObj [(''error'', JStr (name @ '' parameter is required''))]\<rparr>"

definition failure :: "string \<Rightarrow> exn \<Rightarrow> reply" where
  "failure what e =
     \<lparr>status = 500, body = JObj [(''error'', JStr what), (''message'', JStr (message e))]\<rparr>"

definition playlist_url :: "string \<Rightarrow> string" where
  "playlist_url playlistId = ''https://www.youtube.com/playlist?list='' @ playlistId"

definition video_url :: "string \<Rightarrow> string" where
  "video_url videoId = ''https://www.youtube.com/watch?v='' @ videoId"

text \<open>\<open>typeof metadata === 'string' ? JSON.parse(metadata) : metadata\<close>\<close>

definition parse_metadata :: "env \<Rightarrow> js \<Rightarrow> exn + js" where
  "parse_metadata env metadata =
     (case metadata of JStr s \<Rightarrow> JSON_parse env s | _ \<Rightarrow> Inr metadata)"

text \<open>
  A query parameter is absent (\<open>None\<close>) or a string; \<open>!playlistId\<close> holds of an
  absent and of an empty one. The \<open>Authorization\<close> header likewise.
\<close>

definition required :: "string option \<Rightarrow> string option" where
  "required q = (case q of None \<Rightarrow> None | Some s \<Rightarrow> if s = [] then None else Some s)"

definition starts_with :: "string \<Rightarrow> string \<Rightarrow> bool" where
  "starts_with s p = (take (length p) s = p)"

text \<open>
  \<open>authHeader && authHeader.startsWith('Bearer ')\<close>, and then
  \<open>authHeader.substring(7)\<close>.
\<close>

definition bearer_token :: "string option \<Rightarrow> string option" where
  "bearer_token authHeader =
     (case authHeader of
        None \<Rightarrow> None
      | Some h \<Rightarrow> if h \<noteq> [] \<and> starts_with h ''Bearer '' then Some (drop 7 h) else None)"

section \<open>Playlist info and playlist videos (src/server.js)\<close>

text \<open>
  \<open>playlistData.thumbnails && playlistData.thumbnails.length > 0
     ? playlistData.thumbnails[playlistData.thumbnails.length - 1].url : null || ''\<close>
\<close>

definition playlist_thumbnail :: "env \<Rightarrow> js \<Rightarrow> exn + js" where
  "playlist_thumbnail env playlistData =
     bindE (get playlistData ''thumbnails'') (\<lambda>thumbnails.
       if \<not> truthy thumbnails then Inr (js_or JNull (JStr []))
       else bindE (get thumbnails ''length'') (\<lambda>n.
         if gt_zero env n
         then bindE (member env thumbnails (minus_one env n)) (\<lambda>l. get l ''url'')
         else Inr (js_or JNull (JStr []))))"

text \<open>
  \<open>playlistData.playlist_count || (playlistData.entries ? playlistData.entries.length : 0)\<close>
\<close>

definition playlist_count :: "js \<Rightarrow> exn + js" where
  "playlist_count playlistData =
     bindE (get playlistData ''playlist_count'') (\<lambda>c.
       if truthy c then Inr c
       else bindE (get playlistData ''entries'') (\<lambda>entries.
         if truthy entries then get entries ''length'' else Inr (JNum 0)))"

definition playlist_summary :: "env \<Rightarrow> string \<Rightarrow> js \<Rightarrow> exn + js" where
  "playlist_summary env playlistId playlistData =
     bindE (get playlistData ''title'') (\<lambda>title.
     bindE (get playlistData ''description'') (\<lambda>description.
     bindE (playlist_thumbnail env playlistData) (\<lambda>thumbnailUrl.
     bindE (playlist_count playlistData) (\<lambda>itemCount.
       Inr (JObj [
         (''id'', JStr playlistId),
         (''title'', js_or title (JStr ''Unknown Playlist'')),
         (''description'', js_or description (JStr [])),
         (''thumbnailUrl'', thumbnailUrl),
         (''itemCount'', itemCount)])))))"

definition playlist_args :: "string \<Rightarrow> string list" where
  "playlist_args playlistId =
     [playlist_url playlistId, ''--flat-playlist'', ''--dump-single-json'']"

definition playlist_info :: "env \<Rightarrow> string option \<Rightarrow> call list \<times> reply" where
  "playlist_info env playlistId =
     (case required playlistId of
        None \<Rightarrow> ([], missing_parameter ''playlistId'')
      | Some pid \<Rightarrow>
          ([GetVideoInfo (playlist_args pid)],
           case bindE (getVideoInfo env (playlist_args pid)) (\<lambda>metadata.
                bindE (parse_metadata env metadata) (playlist_summary env pid)) of
             Inl error \<Rightarrow> failure ''Failed to fetch playlist info'' error
           | Inr b \<Rightarrow> ok b))"

text \<open>
  The thumbnail of an entry:
  \<open>video.thumbnail || (video.thumbnails && video.thumbnails.length > 0
     ? video.thumbnails[0].url : '') || ''\<close>
\<close>

definition video_thumbnail :: "env \<Rightarrow> js \<Rightarrow> exn + js" where
  "video_thumbnail env video =
     bindE (get video ''thumbnail'') (\<lambda>thumbnail.
       if truthy thumbnail then Inr thumbnail
       else bindE (get video ''thumbnails'') (\<lambda>thumbnails.
         bindE (if \<not> truthy thumbnails then Inr (JStr [])
                else bindE (get thumbnails ''length'') (\<lambda>n.
                  if gt_zero env n
                  then bindE (member env thumbnails (Some 0)) (\<lambda>first. get first ''url'')
                  else Inr (JStr [])))
           (\<lambda>u. Inr (js_or u (JStr [])))))"

text \<open>The function given to \<open>entries.map\<close>: \<open>null\<close> for a falsy entry.\<close>

definition video_entry :: "env \<Rightarrow> js \<Rightarrow> exn + js" where
  "video_entry env video =
     (if \<not> truthy video then Inr JNull
      else
        bindE (get video ''id'') (\<lambda>vid.
        bindE (get video ''title'') (\<lambda>title.
        bindE (get video ''uploader'') (\<lambda>uploader.
        bindE (get video ''channel'') (\<lambda>channel.
        bindE (get video ''uploader_id'') (\<lambda>uploader_id.
        bindE (get video ''duration'') (\<lambda>duration.
        bindE (video_thumbnail env video) (\<lambda>thumbnailUrl.
          Inr (JObj [
            (''id'', vid),
            (''title'', js_or title (JStr ''Unknown'')),
            (''author'', js_or (js_or (js_or uploader channel) uploader_id) (JStr ''Unknown'')),
            (''duration'', js_or duration (JNum 0)),
            (''thumbnailUrl'', thumbnailUrl)])))))))))"

text \<open>
  \<open>entries.map(...).filter(v => v !== null)\<close>: only an array has \<open>map\<close>.
\<close>

definition process_entries :: "env \<Rightarrow> js \<Rightarrow> exn + js list" where
  "process_entries env entries =
     (case entries of
        JArr xs \<Rightarrow> bindE (mapE (video_entry env) xs) (\<lambda>vs. Inr (filter (\<lambda>v. v \<noteq> JNull) vs))
      | JUndefined \<Rightarrow> Inl (cannot_read entries ''map'')
      | JNull \<Rightarrow> Inl (cannot_read entries ''map'')
      | _ \<Rightarrow> Inl (not_a_function ''entries.map''))"

definition videos_body :: "env \<Rightarrow> string \<Rightarrow> js \<Rightarrow> js \<Rightarrow> exn + js" where
  "videos_body env playlistId playlistData entries =
     bindE (process_entries env entries) (\<lambda>videos.
     bindE (get playlistData ''title'') (\<lambda>title.
       Inr (JObj [
         (''playlistId'', JStr playlistId),
         (''title'', js_or title (JStr [])),
         (''itemCount'', JNum (of_nat (length videos))),
         (''videos'', JArr videos)])))"

definition playlist_videos :: "env \<Rightarrow> string option \<Rightarrow> call list \<times> reply" where
  "playlist_videos env playlistId =
     (case required playlistId of
        None \<Rightarrow> ([], missing_parameter ''playlistId'')
      | Some pid \<Rightarrow>
          ([GetVideoInfo (playlist_args pid)],
           case bindE (getVideoInfo env (playlist_args pid)) (\<lambda>metadata.
                bindE (parse_metadata env metadata) (\<lambda>playlistData.
                bindE (get playlistData ''entries'') (\<lambda>entries.
                  videos_body env pid playlistData (js_or entries (JArr []))))) of
             Inl error \<Rightarrow> failure ''Failed to fetch playlist videos'' error
           | Inr b \<Rightarrow> ok b))"

section \<open>The hybrid handlers (src/unnamed/part_000)\<close>

text \<open>
  Both handlers of this file recover the playlist document and its entries from the
  parsed payload in the same way:
  \<^verbatim>\<open>
  let playlistData = rawData;
  let entries = [];
  if (Array.isArray(rawData)) {
    playlistData = rawData.find(item => item._type === 'playlist') || rawData[rawData.length - 1];
    entries = rawData.filter(item => item._type === 'url' || item._type === 'video');
  } else {
    entries = rawData.entries || [];
  }
  \<close>
\<close>

fun find_playlist :: "js list \<Rightarrow> exn + js" where
  "find_playlist [] = Inr JUndefined"
| "find_playlist (item # items) =
     bindE (get item ''_type'') (\<lambda>t.
       if t = JStr ''playlist'' then Inr item else find_playlist items)"

fun filter_entries :: "js list \<Rightarrow> exn + js list" where
  "filter_entries [] = Inr []"
| "filter_entries (item # items) =
     bindE (get item ''_type'') (\<lambda>t.
     bindE (filter_entries items) (\<lambda>rest.
       Inr (if t = JStr ''url'' \<or> t = JStr ''video'' then item # rest else rest)))"

definition last_element :: "js list \<Rightarrow> js" where
  "last_element xs = (if xs = [] then JUndefined else last xs)"

definition recover_playlist :: "js \<Rightarrow> exn + js \<times> js" where
  "recover_playlist rawData =
     (case rawData of
        JArr xs \<Rightarrow>
          bindE (find_playlist xs) (\<lambda>found.
          bindE (filter_entries xs) (\<lambda>entries.
            Inr (js_or found (last_element xs), JArr entries)))
      | _ \<Rightarrow>
          bindE (get rawData ''entries'') (\<lambda>entries.
            Inr (rawData, js_or entries (JArr []))))"

text \<open>
  The summary of the extractor's document;
  \<open>itemCount: playlistData.playlist_count || entries.length || 0\<close>.
\<close>

definition hybrid_summary :: "env \<Rightarrow> string \<Rightarrow> js \<Rightarrow> js \<Rightarrow> exn + js" where
  "hybrid_summary env playlistId playlistData entries =
     bindE (get playlistData ''title'') (\<lambda>title.
     bindE (get playlistData ''description'') (\<lambda>description.
     bindE (playlist_thumbnail env playlistData) (\<lambda>thumbnailUrl.
     bindE (get playlistData ''playlist_count'') (\<lambda>c.
     bindE (if truthy c then Inr c
            else bindE (get entries ''length'') (\<lambda>n. Inr (js_or n (JNum 0)))) (\<lambda>itemCount.
       Inr (JObj [
         (''id'', JStr playlistId),
         (''title'', js_or title (JStr ''Unknown Playlist'')),
         (''description'', js_or description (JStr [])),
         (''thumbnailUrl'', thumbnailUrl),
         (''itemCount'', itemCount),
         (''source'', JStr ''yt-dlp'')]))))))"

text \<open>The first attempt of playlist-info: everything inside the inner \<open>try\<close>.\<close>

definition extractor_summary :: "env \<Rightarrow> string \<Rightarrow> exn + js" where
  "extractor_summary env playlistId =
     bindE (getVideoInfo env (playlist_args playlistId)) (\<lambda>metadata.
     bindE (parse_metadata env metadata) (\<lambda>rawData.
     bindE (recover_playlist rawData) (\<lambda>(playlistData, entries).
       hybrid_summary env playlistId playlistData entries)))"

text \<open>
  The thumbnail of a playlist of the listing API:
  \<open>playlist.snippet.thumbnails?.medium?.url || playlist.snippet.thumbnails?.default?.url || ''\<close>
\<close>

definition api_thumbnail :: "js \<Rightarrow> js" where
  "api_thumbnail thumbnails =
     js_or (js_or (opt_prop (opt_prop thumbnails ''medium'') ''url'')
                  (opt_prop (opt_prop thumbnails ''default'') ''url''))
           (JStr [])"

definition api_parts :: "string list" where
  "api_parts = [''snippet'', ''contentDetails'']"

text \<open>
  The second attempt: the body of the \<open>try\<close> around the listing API. \<open>Inr None\<close> is
  the end of that block without a reply (no items).
\<close>

definition api_summary :: "env \<Rightarrow> string \<Rightarrow> string \<Rightarrow> exn + js option" where
  "api_summary env playlistId accessToken =
     bindE (playlists_list env accessToken (ListById api_parts [playlistId])) (\<lambda>response.
     bindE (get response ''data'') (\<lambda>data.
     bindE (get data ''items'') (\<lambda>items.
     bindE (if \<not> truthy items then Inr False
            else bindE (get items ''length'') (\<lambda>n. Inr (gt_zero env n))) (\<lambda>some.
       if \<not> some then Inr None
       else
         bindE (member env items (Some 0)) (\<lambda>playlist.
         bindE (get playlist ''snippet'') (\<lambda>snippet.
         bindE (get snippet ''title'') (\<lambda>title.
         bindE (get snippet ''description'') (\<lambda>description.
         bindE (get snippet ''thumbnails'') (\<lambda>thumbnails.
         bindE (get playlist ''contentDetails'') (\<lambda>contentDetails.
         bindE (get contentDetails ''itemCount'') (\<lambda>itemCount.
           Inr (Some (JObj [
             (''id'', JStr playlistId),
             (''title'', title),
             (''description'', js_or description (JStr [])),
             (''thumbnailUrl'', api_thumbnail thumbnails),
             (''itemCount'', itemCount),
             (''source'', JStr ''youtube-api'')])))))))))))))"

definition playlist_info_hybrid ::
  "env \<Rightarrow> string option \<Rightarrow> string option \<Rightarrow> call list \<times> reply" where
  "playlist_info_hybrid env playlistId authHeader =
     (case required playlistId of
        None \<Rightarrow> ([], missing_parameter ''playlistId'')
      | Some pid \<Rightarrow>
          (case extractor_summary env pid of
             Inr b \<Rightarrow> ([GetVideoInfo (playlist_args pid)], ok b)
           | Inl ytdlpError \<Rightarrow>
               (case bearer_token authHeader of
                  None \<Rightarrow>
                    ([GetVideoInfo (playlist_args pid)],
                     failure ''Failed to fetch playlist info'' ytdlpError)
                | Some accessToken \<Rightarrow>
                    ([GetVideoInfo (playlist_args pid),
                      PlaylistsList accessToken (ListById api_parts [pid])],
                     case api_summary env pid accessToken of
                       Inr (Some b) \<Rightarrow> ok b
                     | Inr None \<Rightarrow> failure ''Failed to fetch playlist info'' ytdlpError
                     | Inl apiError \<Rightarrow> failure ''Failed to fetch playlist info'' ytdlpError))))"

definition playlist_videos_hybrid :: "env \<Rightarrow> string option \<Rightarrow> call list \<times> reply" where
  "playlist_videos_hybrid env playlistId =
     (case required playlistId of
        None \<Rightarrow> ([], missing_parameter ''playlistId'')
      | Some pid \<Rightarrow>
          ([GetVideoInfo (playlist_args pid)],
           case bindE (getVideoInfo env (playlist_args pid)) (\<lambda>metadata.
                bindE (parse_metadata env metadata) (\<lambda>rawData.
                bindE (recover_playlist rawData) (\<lambda>(playlistData, entries).
                  videos_body env pid playlistData entries))) of
             Inl error \<Rightarrow> failure ''Failed to fetch playlist videos'' error
           | Inr b \<Rightarrow> ok b))"

text \<open>The playlists of the authenticated account.\<close>

definition user_playlist :: "js \<Rightarrow> exn + js" where
  "user_playlist playlist =
     bindE (get playlist ''id'') (\<lambda>pid.
     bindE (get playlist ''snippet'') (\<lambda>snippet.
     bindE (get snippet ''title'') (\<lambda>title.
     bindE (get snippet ''description'') (\<lambda>description.
     bindE (get snippet ''thumbnails'') (\<lambda>thumbnails.
     bindE (get playlist ''contentDetails'') (\<lambda>contentDetails.
     bindE (get contentDetails ''itemCount'') (\<lambda>itemCount.
     bindE (get playlist ''status'') (\<lambda>st.
       Inr (JObj [
         (''id'', pid),
         (''title'', title),
         (''description'', description),
         (''thumbnailUrl'', api_thumbnail thumbnails),
         (''itemCount'', itemCount),
         (''privacy'', js_or (opt_prop st ''privacyStatus'') (JStr ''public''))])))))))))"

definition map_items :: "js \<Rightarrow> exn + js list" where
  "map_items items =
     (case items of
        JArr xs \<Rightarrow> mapE user_playlist xs
      | JUndefined \<Rightarrow> Inl (cannot_read items ''map'')
      | JNull \<Rightarrow> Inl (cannot_read items ''map'')
      | _ \<Rightarrow> Inl (not_a_function ''response.data.items.map''))"

definition unauthorized :: "js \<Rightarrow> reply" where
  "unauthorized b = \<lparr>status = 401, body = b\<rparr>"

definition user_playlists :: "env \<Rightarrow> string option \<Rightarrow> call list \<times> reply" where
  "user_playlists env authHeader =
     (case bearer_token authHeader of
        None \<Rightarrow> ([], unauthorized (JObj [(''error'', JStr ''Authorization token required'')]))
      | Some accessToken \<Rightarrow>
          ([PlaylistsList accessToken (ListMine api_parts 50)],
           case bindE (playlists_list env accessToken (ListMine api_parts 50)) (\<lambda>response.
                bindE (get response ''data'') (\<lambda>data.
                bindE (get data ''items'') (\<lambda>items.
                bindE (map_items items) (\<lambda>playlists.
                  Inr (JObj [(''playlists'', JArr playlists)]))))) of
             Inr b \<Rightarrow> ok b
           | Inl error \<Rightarrow>
               if code error = JNum 401
               then unauthorized (JObj [
                      (''error'', JStr ''Invalid or expired token''),
                      (''message'', JStr ''Please sign in again'')])
               else failure ''Failed to fetch user playlists'' error))"

section \<open>Download info and download (src/server.js)\<close>

definition video_args :: "string \<Rightarrow> string list" where
  "video_args videoId = [video_url videoId, ''--dump-json'']"

definition download_info_body :: "string \<Rightarrow> js \<Rightarrow> exn + js" where
  "download_info_body videoId info =
     bindE (get info ''title'') (\<lambda>title.
     bindE (get info ''uploader'') (\<lambda>uploader.
     bindE (get info ''channel'') (\<lambda>channel.
     bindE (get info ''duration'') (\<lambda>duration.
       Inr (JObj [
         (''videoId'', JStr videoId),
         (''title'', title),
         (''author'', js_or (js_or uploader channel) (JStr ''Unknown'')),
         (''lengthSeconds'', js_or duration (JNum 0)),
         (''downloadUrl'', JStr (video_url videoId)),
         (''quality'', JStr ''best''),
         (''format'', JStr ''audio/mp4'')])))))"

definition download_info :: "env \<Rightarrow> string option \<Rightarrow> call list \<times> reply" where
  "download_info env videoId =
     (case required videoId of
        None \<Rightarrow> ([], missing_parameter ''videoId'')
      | Some vid \<Rightarrow>
          ([GetVideoInfo (video_args vid)],
           case bindE (getVideoInfo env (video_args vid)) (\<lambda>metadata.
                bindE (parse_metadata env metadata) (download_info_body vid)) of
             Inl error \<Rightarrow> failure ''Failed to fetch download info'' error
           | Inr b \<Rightarrow> ok b))"

subsection \<open>The file name of a download\<close>

text \<open>
  \<open>info.title.replace(/[^a-z0-9]/gi, '_').toLowerCase()\<close>. Without the \<open>u\<close> flag the
  class \<open>[a-z0-9]\<close> under \<open>i\<close> matches the ASCII letters and digits only, one code unit
  at a time. Only a string has \<open>replace\<close>.
\<close>

definition is_alnum :: "char \<Rightarrow> bool" where
  "is_alnum c =
     (let n = (of_char c :: nat) in
      (97 \<le> n \<and> n \<le> 122) \<or> (65 \<le> n \<and> n \<le> 90) \<or> (48 \<le> n \<and> n \<le> 57))"

definition toLowerCase :: "char \<Rightarrow> char" where
  "toLowerCase c =
     (let n = (of_char c :: nat) in
      if (65 \<le> n \<and> n \<le> 90) \<or> (192 \<le> n \<and> n \<le> 222 \<and> n \<noteq> 215)
      then char_of (n + 32) else c)"

definition sanitize :: "string \<Rightarrow> string" where
  "sanitize title = map toLowerCase (map (\<lambda>c. if is_alnum c then c else CHR ''_'') title)"

definition file_title :: "js \<Rightarrow> exn + string" where
  "file_title title =
     (case title of
        JStr t \<Rightarrow> Inr (sanitize t)
      | JUndefined \<Rightarrow> Inl (cannot_read title ''replace'')
      | JNull \<Rightarrow> Inl (cannot_read title ''replace'')
      | _ \<Rightarrow> Inl (not_a_function ''info.title.replace''))"

subsection \<open>The response of a download\<close>

text \<open>
  The response object as the stream handler uses it: its status code, its headers,
  whether the headers have gone out, what has been written to the body (a JSON document
  by \<open>res.json\<close>, bytes by the pipe), and whether it has ended.
\<close>

datatype emitted = JsonBody js | Bytes string

record res =
  statusCode :: nat
  headers :: "string \<rightharpoonup> string"
  headersSent :: bool
  written :: "emitted list"
  finished :: bool

definition new_res :: res where
  "new_res = \<lparr>statusCode = 200, headers = Map.empty, headersSent = False,
              written = [], finished = False\<rparr>"

definition setHeader :: "string \<Rightarrow> string \<Rightarrow> res \<Rightarrow> res" where
  "setHeader name v r = r\<lparr>headers := (headers r)(name \<mapsto> v)\<rparr>"

text \<open>
  \<open>res.status(code).json(b)\<close>. Express sets the content type of a JSON body only
  when the response has none yet, and then adds the character set to the content type
  the response has (here a type without parameters: the handler sets \<open>audio/mp4\<close>
  at most).
\<close>

definition json_content_type :: "string option \<Rightarrow> string" where
  "json_content_type t =
     (case t of None \<Rightarrow> ''application/json'' | Some u \<Rightarrow> u) @ ''; charset=utf-8''"

definition send_json :: "nat \<Rightarrow> js \<Rightarrow> res \<Rightarrow> res" where
  "send_json c b r =
     r\<lparr>statusCode := c,
       headers := (headers r)(''Content-Type'' \<mapsto>
                    json_content_type (headers r ''Content-Type'')),
       headersSent := True,
       written := written r @ [JsonBody b],
       finished := True\<rparr>"

text \<open>What \<open>stream.pipe(res)\<close> does with a chunk and with the end of the stream.\<close>

definition write_chunk :: "string \<Rightarrow> res \<Rightarrow> res" where
  "write_chunk chunk r =
     (if finished r then r
      else r\<lparr>headersSent := True, written := written r @ [Bytes chunk]\<rparr>)"

definition end_res :: "res \<Rightarrow> res" where
  "end_res r = (if finished r then r else r\<lparr>headersSent := True, finished := True\<rparr>)"

text \<open>
  The \<open>'error'\<close> listener of the stream and the outer \<open>catch\<close>: both test
  \<open>res.headersSent\<close> first.
\<close>

definition on_stream_error :: "exn \<Rightarrow> res \<Rightarrow> res" where
  "on_stream_error error r =
     (if \<not> headersSent r
      then send_json 500 (JObj [(''error'', JStr ''Download failed'')]) r
      else r)"

definition on_catch :: "exn \<Rightarrow> res \<Rightarrow> res" where
  "on_catch error r =
     (if \<not> headersSent r
      then send_json 500 (JObj [(''error'', JStr ''Failed to download''),
                                (''message'', JStr (message error))]) r
      else r)"

definition on_event :: "res \<Rightarrow> event \<Rightarrow> res" where
  "on_event r ev =
     (case ev of
        Data chunk \<Rightarrow> write_chunk chunk r
      | End \<Rightarrow> end_res r
      | StreamError error \<Rightarrow> on_stream_error error r)"

definition stream_args :: "string \<Rightarrow> string list" where
  "stream_args videoId = [video_url videoId, ''-f'', ''bestaudio'', ''-o'', ''-'']"

definition content_disposition :: "string \<Rightarrow> string" where
  "content_disposition title =
     ''attachment; filename='' @ [CHR 0x22] @ title @ ''.m4a'' @ [CHR 0x22]"

definition download :: "env \<Rightarrow> string option \<Rightarrow> call list \<times> res" where
  "download env videoId =
     (case required videoId of
        None \<Rightarrow>
          ([], send_json 400 (JObj [(''error'', JStr ''videoId parameter is required'')]) new_res)
      | Some vid \<Rightarrow>
          (case bindE (getVideoInfo env (video_args vid)) (\<lambda>metadata.
                bindE (parse_metadata env metadata) (\<lambda>info.
                bindE (get info ''title'') file_title)) of
             Inl error \<Rightarrow> ([GetVideoInfo (video_args vid)], on_catch error new_res)
           | Inr title \<Rightarrow>
               (let r = setHeader ''Content-Type'' ''audio/mp4''
                          (setHeader ''Content-Disposition'' (content_disposition title) new_res)
                in ([GetVideoInfo (video_args vid), ExecStream (stream_args vid)],
                    case execStream env (stream_args vid) of
                      Inl error \<Rightarrow> on_catch error r
                    | Inr events \<Rightarrow> foldl on_event r events))))"

section \<open>Playlist videos, line by line (src/unnamed/part_002)\<close>

text \<open>
  This draft asks the extractor for \<open>--dump-json\<close> and reads its text line by line:
  \<^verbatim>\<open>
  const lines = metadata.split('\n').filter(line => line.trim());
  const videos = lines.slice(1).map(line => {
    try { const video = JSON.parse(line); return {...}; } catch (e) { return null; }
  }).filter(v => v !== null);
  \<close>
\<close>

fun split_lines :: "string \<Rightarrow> string list" where
  "split_lines [] = [[]]"
| "split_lines (c # cs) =
     (if c = CHR 0x0A then [] # split_lines cs
      else (case split_lines cs of l # ls \<Rightarrow> (c # l) # ls | [] \<Rightarrow> [[c]]))"

definition is_space :: "char \<Rightarrow> bool" where
  "is_space c = ((of_char c :: nat) \<in> {9, 10, 11, 12, 13, 32, 160})"

definition trim :: "string \<Rightarrow> string" where
  "trim s = rev (dropWhile is_space (rev (dropWhile is_space s)))"

definition line_entry :: "env \<Rightarrow> string \<Rightarrow> js" where
  "line_entry env line =
     (case bindE (JSON_parse env line) (\<lambda>video.
           bindE (get video ''id'') (\<lambda>vid.
           bindE (get video ''title'') (\<lambda>title.
           bindE (get video ''uploader'') (\<lambda>uploader.
           bindE (get video ''channel'') (\<lambda>channel.
           bindE (get video ''duration'') (\<lambda>duration.
           bindE (get video ''thumbnail'') (\<lambda>thumbnail.
             Inr (JObj [
               (''id'', vid),
               (''title'', js_or title (JStr ''Unknown'')),
               (''author'', js_or (js_or uploader channel) (JStr ''Unknown'')),
               (''duration'', js_or duration (JNum 0)),
               (''thumbnailUrl'', js_or thumbnail (JStr []))])))))))) of
        Inl e \<Rightarrow> JNull
      | Inr v \<Rightarrow> v)"

definition lines_args :: "string \<Rightarrow> string list" where
  "lines_args playlistId = [playlist_url playlistId, ''--flat-playlist'', ''--dump-json'']"

definition lines_of :: "js \<Rightarrow> exn + string list" where
  "lines_of metadata =
     (case metadata of
        JStr s \<Rightarrow> Inr (filter (\<lambda>line. trim line \<noteq> []) (split_lines s))
      | JUndefined \<Rightarrow> Inl (cannot_read metadata ''split'')
      | JNull \<Rightarrow> Inl (cannot_read metadata ''split'')
      | _ \<Rightarrow> Inl (not_a_function ''metadata.split''))"

definition playlist_videos_lines :: "env \<Rightarrow> string option \<Rightarrow> call list \<times> reply" where
  "playlist_videos_lines env playlistId =
     (case required playlistId of
        None \<Rightarrow> ([], missing_parameter ''playlistId'')
      | Some pid \<Rightarrow>
          ([GetVideoInfo (lines_args pid)],
           case bindE (getVideoInfo env (lines_args pid)) (\<lambda>metadata.
                bindE (lines_of metadata) (\<lambda>lines.
                  let videos = filter (\<lambda>v. v \<noteq> JNull) (map (line_entry env) (drop 1 lines))
                  in Inr (JObj [
                       (''playlistId'', JStr pid),
                       (''title'', JStr []),
                       (''itemCount'', JNum (of_nat (length videos))),
                       (''videos'', JArr videos)]))) of
             Inl error \<Rightarrow> failure ''Failed to fetch playlist videos'' error
           | Inr b \<Rightarrow> ok b))"

section \<open>Download info of the ytdl-core draft (src/unnamed/part_001)\<close>

text \<open>
  This draft asks the library ytdl-core instead of the extractor: \<open>ytdl.validateURL\<close>,
  \<open>ytdl.getInfo\<close> and \<open>ytdl.filterFormats(info.formats, 'audioonly')\<close>, which gives
  an array of formats.
\<close>

record ytdl =
  validateURL :: "string \<Rightarrow> bool"
  getInfo :: "string \<Rightarrow> exn + js"
  filterFormats :: "js \<Rightarrow> string \<Rightarrow> exn + js list"

text \<open>
  \<open>a > b\<close>: two strings are compared code unit by code unit, any other two values as
  numbers, and a comparison with \<open>NaN\<close> is false.
\<close>

definition ToPrimitive :: "env \<Rightarrow> js \<Rightarrow> js" where
  "ToPrimitive env v =
     (case v of
        JArr xs \<Rightarrow> JStr (ToString (NumberToString env) v)
      | JObj kvs \<Rightarrow> JStr (ToString (NumberToString env) v)
      | JFun f n \<Rightarrow> JStr (ToString (NumberToString env) v)
      | _ \<Rightarrow> v)"

fun units_less :: "string \<Rightarrow> string \<Rightarrow> bool" where
  "units_less [] [] = False"
| "units_less [] (y # ys) = True"
| "units_less (x # xs) [] = False"
| "units_less (x # xs) (y # ys) =
     ((of_char x :: nat) < of_char y \<or> (x = y \<and> units_less xs ys))"

definition js_gt :: "env \<Rightarrow> js \<Rightarrow> js \<Rightarrow> bool" where
  "js_gt env a b =
     (case (ToPrimitive env a, ToPrimitive env b) of
        (JStr s, JStr t) \<Rightarrow> units_less t s
      | (p, q) \<Rightarrow>
          (case (ToNumber env p, ToNumber env q) of
             (Some m, Some n) \<Rightarrow> n < m
           | _ \<Rightarrow> False))"

text \<open>
  The function given to \<open>audioFormats.reduce\<close>, and the reduction from \<open>null\<close>:
  \<^verbatim>\<open>
  (best, format) => {
    if (!best || (format.audioBitrate && format.audioBitrate > best.audioBitrate)) {
      return format;
    }
    return best;
  }
  \<close>
\<close>

definition better :: "env \<Rightarrow> js \<Rightarrow> js \<Rightarrow> exn + js" where
  "better env best format =
     (if \<not> truthy best then Inr format
      else bindE (get format ''audioBitrate'') (\<lambda>rate.
        if \<not> truthy rate then Inr best
        else bindE (get best ''audioBitrate'') (\<lambda>bestRate.
          Inr (if js_gt env rate bestRate then format else best))))"

fun reduce_best :: "env \<Rightarrow> js \<Rightarrow> js list \<Rightarrow> exn + js" where
  "reduce_best env best [] = Inr best"
| "reduce_best env best (format # formats) =
     bindE (better env best format) (\<lambda>b. reduce_best env b formats)"

text \<open>
  \<open>bestAudio?.mimeType?.split(';')[0]\<close>: the text before the first \<open>;\<close>. Of the
  values above only a string has the method \<open>split\<close>.
\<close>

definition mime_type :: "js \<Rightarrow> exn + js" where
  "mime_type bestAudio =
     (if nullish bestAudio then Inr JUndefined
      else bindE (get bestAudio ''mimeType'') (\<lambda>mimeType.
        if nullish mimeType then Inr JUndefined
        else (case mimeType of
                JStr s \<Rightarrow> Inr (JStr (takeWhile (\<lambda>c. c \<noteq> CHR '';'') s))
              | _ \<Rightarrow> Inl (not_a_function ''bestAudio?.mimeType?.split''))))"

definition ytdl_body :: "env \<Rightarrow> string \<Rightarrow> js \<Rightarrow> js \<Rightarrow> exn + js" where
  "ytdl_body env videoId info bestAudio =
     bindE (get info ''videoDetails'') (\<lambda>videoDetails.
     bindE (get videoDetails ''title'') (\<lambda>title.
     bindE (get videoDetails ''author'') (\<lambda>author.
     bindE (get author ''name'') (\<lambda>name.
     bindE (get videoDetails ''lengthSeconds'') (\<lambda>lengthSeconds.
     bindE (mime_type bestAudio) (\<lambda>mimeType.
       Inr (JObj [
         (''videoId'', JStr videoId),
         (''title'', title),
         (''author'', name),
         (''lengthSeconds'', lengthSeconds),
         (''downloadUrl'', js_or (opt_prop bestAudio ''url'') JNull),
         (''quality'', js_or (opt_prop bestAudio ''audioBitrate'') (JStr ''unknown'')),
         (''format'', js_or mimeType (JStr ''audio/webm''))])))))))"

definition download_info_ytdl ::
  "ytdl \<Rightarrow> env \<Rightarrow> string option \<Rightarrow> call list \<times> reply" where
  "download_info_ytdl lib env videoId =
     (case required videoId of
        None \<Rightarrow> ([], missing_parameter ''videoId'')
      | Some vid \<Rightarrow>
          if \<not> validateURL lib (video_url vid)
          then ([], \<lparr>status = 400, body = JObj [(''error'', JStr ''Invalid YouTube video ID'')]\<rparr>)
          else
            ([GetInfo (video_url vid)],
             case bindE (getInfo lib (video_url vid)) (\<lambda>info.
                  bindE (get info ''formats'') (\<lambda>formats.
                  bindE (filterFormats lib formats ''audioonly'') (\<lambda>audioFormats.
                  bindE (reduce_best env JNull audioFormats) (\<lambda>bestAudio.
                    ytdl_body env vid info bestAudio)))) of
               Inl error \<Rightarrow> failure ''Failed to fetch download info'' error
             | Inr b \<Rightarrow> ok b))"

section \<open>Vocabulary of the properties\<close>

text \<open>A field of a reply's body; \<open>undefined\<close> when the body does not have it.\<close>

definition field :: "js \<Rightarrow> string \<Rightarrow> js" where
  "field b k = opt_prop b k"

text \<open>The type tag of an element of an array payload, and the two classes of elements.\<close>

definition type_tag :: "js \<Rightarrow> js" where
  "type_tag item = opt_prop item ''_type''"

definition is_playlist_doc :: "js \<Rightarrow> bool" where
  "is_playlist_doc item = (type_tag item = JStr ''playlist'')"

definition is_item :: "js \<Rightarrow> bool" where
  "is_item item = (type_tag item = JStr ''url'' \<or> type_tag item = JStr ''video'')"

definition is_array :: "js \<Rightarrow> bool" where
  "is_array v = (case v of JArr xs \<Rightarrow> True | _ \<Rightarrow> False)"

text \<open>
  The JSON documents among what a download response has written, and the three kinds of
  state such a response can be in: untouched; answered by one JSON reply and ended;
  streaming or streamed, with bytes only and status 200.
\<close>

definition json_bodies :: "emitted list \<Rightarrow> js list" where
  "json_bodies w = concat (map (\<lambda>x. case x of JsonBody b \<Rightarrow> [b] | Bytes c \<Rightarrow> []) w)"

fun single_json :: "emitted list \<Rightarrow> bool" where
  "single_json [JsonBody b] = True"
| "single_json w = False"

definition download_states :: "res \<Rightarrow> bool" where
  "download_states r =
     ((\<not> headersSent r \<and> \<not> finished r \<and> written r = [] \<and> statusCode r = 200) \<or>
      (headersSent r \<and> finished r \<and> single_json (written r)) \<or>
      (headersSent r \<and> json_bodies (written r) = [] \<and> statusCode r = 200))"

text \<open>
  The title the extractor reports for a video: what \<open>info.title\<close> is in the download
  handlers.
\<close>

definition reported_title :: "env \<Rightarrow> string \<Rightarrow> exn + js" where
  "reported_title env videoId =
     bindE (getVideoInfo env (video_args videoId)) (\<lambda>metadata.
     bindE (parse_metadata env metadata) (\<lambda>info. get info ''title''))"

text \<open>A lowercase letter, a digit or an underscore.\<close>

definition is_file_char :: "char \<Rightarrow> bool" where
  "is_file_char c =
     (let n = (of_char c :: nat) in
      (97 \<le> n \<and> n \<le> 122) \<or> (48 \<le> n \<and> n \<le> 57) \<or> c = CHR ''_'')"

section \<open>Sample requests\<close>

text \<open>
  Environments for concrete runs: the extractor, the listing API and the stream answer
  every call with the given result. The payloads of the runs below are parsed documents:
  no run reaches \<open>JSON.parse\<close> or \<open>StringToNumber\<close>, and \<open>NumberToString\<close>
  only at 0. The sample environment answers the first two as for the empty text, the
  third as for 0.
\<close>

definition sample_env :: "(exn + js) \<Rightarrow> (exn + js) \<Rightarrow> (exn + event list) \<Rightarrow> env" where
  "sample_env extractor api stream =
     \<lparr>JSON_parse = (\<lambda>s. Inl (Exn ''Unexpected end of JSON input'' JUndefined)),
      StringToNumber = (\<lambda>s. Some 0),
      NumberToString = (\<lambda>r. ''0''),
      getVideoInfo = (\<lambda>args. extractor),
      playlists_list = (\<lambda>accessToken q. api),
      execStream = (\<lambda>args. stream)\<rparr>"

text \<open>A private playlist: the extractor fails, the listing API knows it.\<close>

definition private_error :: exn where
  "private_error = Exn ''ERROR: This playlist is private'' JUndefined"



definition api_error :: exn where
  "api_error = Exn ''Invalid Credentials'' (JNum 401)"


definition idle_env :: env where
  "idle_env = sample_env (Inl private_error) (Inl api_error) (Inr [])"

text \<open>Playlist payloads: an array of tagged elements, and a document with entries.\<close>

definition mixed_array :: "js list" where
  "mixed_array =
     [JObj [(''_type'', JStr ''url''), (''id'', JStr ''a'')],
      JObj [(''_type'', JStr ''playlist''), (''title'', JStr ''Mix'')],
      JObj [(''_type'', JStr ''video''), (''id'', JStr ''b'')]]"


definition anonymous_entries :: js where
  "anonymous_entries =
     JObj [(''title'', JStr ''Mix''), (''entries'', JArr [JObj [(''title'', JStr ''A'')]])]"

definition anonymous_env :: env where
  "anonymous_env = sample_env (Inr anonymous_entries) (Inl api_error) (Inr [])"

text \<open>Video metadata, and a stream that fails after its first chunk.\<close>

definition untitled :: js where
  "untitled = JObj [(''uploader'', JStr ''Band''), (''duration'', JNum 215)]"

definition untitled_env :: env where
  "untitled_env = sample_env (Inr untitled) (Inl api_error) (Inr [])"

definition hello_env :: env where
  "hello_env = sample_env (Inr (JObj [(''title'', JStr ''Hello, World! 42'')]))
                 (Inl api_error) (Inr [Data ''abc'', StreamError private_error, End])"

definition unguarded :: js where
  "unguarded = JObj [(''title'', JStr []), (''duration'', JNum (- 3))]"

definition unguarded_env :: env where
  "unguarded_env = sample_env (Inr unguarded) (Inl api_error) (Inr [])"

definition song :: js where
  "song = JObj [(''id'', JStr ''abc123''), (''title'', JStr ''Song''),
                (''channel'', JStr ''Band''), (''duration'', JNum 215)]"

definition song_env :: env where
  "song_env = sample_env (Inr song) (Inl api_error) (Inr [])"

text \<open>
  The extractor's output with one JSON object per line, as the wrapper hands it over:
  the array of the parsed lines.
\<close>

definition line_objects :: "js list" where
  "line_objects =
     [JObj [(''_type'', JStr ''url''), (''id'', JStr ''a''), (''title'', JStr ''A'')],
      JObj [(''_type'', JStr ''url''), (''id'', JStr ''b'')]]"

definition lines_env :: env where
  "lines_env = sample_env (Inr (JArr line_objects)) (Inl api_error) (Inr [])"

text \<open>What ytdl-core knows of a video with two audio-only formats.\<close>

definition opus_format :: js where
  \<open>opus_format =
     JObj [(''url'', JStr ''https://rr1.googlevideo.com/videoplayback?itag=251''),
           (''audioBitrate'', JNum 160),
           (''mimeType'', JStr ''audio/webm; codecs="opus"'')]\<close>

definition aac_format :: js where
  \<open>aac_format =
     JObj [(''url'', JStr ''https://rr1.googlevideo.com/videoplayback?itag=140''),
           (''audioBitrate'', JNum 128),
           (''mimeType'', JStr ''audio/mp4; codecs="mp4a.40.2"'')]\<close>

definition song_info :: js where
  "song_info =
     JObj [(''formats'', JArr [aac_format, opus_format]),
           (''videoDetails'', JObj [(''title'', JStr ''Song''),
                                    (''author'', JObj [(''name'', JStr ''Band'')]),
                                    (''lengthSeconds'', JStr ''215'')])]"

definition sample_ytdl :: ytdl where
  "sample_ytdl =
     \<lparr>validateURL = (\<lambda>url. True),
      getInfo = (\<lambda>url. Inr song_info),
      filterFormats = (\<lambda>formats only. Inr [aac_format, opus_format])\<rparr>"

section \<open>Basic facts\<close>

lemma get_not_nullish: "\<not> nullish v \<Longrightarrow> get v k = Inr (opt_prop v k)"
  by (cases v) (simp_all add: nullish_def opt_prop_def)

lemma get_Inr_field: "get v k = Inr x \<Longrightarrow> x = field v k"
  by (cases v) (simp_all add: field_def opt_prop_def)

lemma truthy_not_nullish: "truthy v \<Longrightarrow> \<not> nullish v"
  by (cases v) (simp_all add: nullish_def)

lemma js_or_defined: "b \<noteq> JUndefined \<Longrightarrow> js_or a b \<noteq> JUndefined"
  by (cases a) (simp_all add: js_or_def)

lemma field_cons: "field (JObj ((k, v) # kvs)) k' = (if k' = k then v else field (JObj kvs) k')"
  by (simp add: field_def opt_prop_def)

lemma failure_status: "status (failure what e) = 500"
  by (simp add: failure_def)

lemma missing_status: "status (missing_parameter name) = 400"
  by (simp add: missing_parameter_def)

lemma mapE_set: "mapE f xs = Inr ys \<Longrightarrow> \<forall>y\<in>set ys. \<exists>x\<in>set xs. f x = Inr y"
  by (induction xs arbitrary: ys) (auto split: sum.splits)

lemma video_thumbnail_defined: "video_thumbnail env video = Inr u \<Longrightarrow> u \<noteq> JUndefined"
  by (auto simp: video_thumbnail_def bindE_def js_or_defined split: sum.splits if_splits)

lemma video_entry_shape:
  assumes "video_entry env video = Inr v" and "v \<noteq> JNull"
  obtains u where "video_thumbnail env video = Inr u"
    and "v = JObj [
            (''id'', field video ''id''),
            (''title'', js_or (field video ''title'') (JStr ''Unknown'')),
            (''author'', js_or (js_or (js_or (field video ''uploader'') (field video ''channel''))
                                (field video ''uploader_id'')) (JStr ''Unknown'')),
            (''duration'', js_or (field video ''duration'') (JNum 0)),
            (''thumbnailUrl'', u)]"
proof -
  from assms have t: "truthy video"
    by (auto simp: video_entry_def split: if_splits)
  then have n: "\<not> nullish video" by (rule truthy_not_nullish)
  from assms(1) t that show thesis
    by (auto simp: video_entry_def bindE_def get_not_nullish [OF n] field_def split: sum.splits)
qed

lemma video_entry_values:
  assumes "video_entry env video = Inr v" and "v \<noteq> JNull"
  shows "field v ''id'' = field video ''id'' \<and>
         field v ''title'' = js_or (field video ''title'') (JStr ''Unknown'') \<and>
         field v ''author'' =
           js_or (js_or (js_or (field video ''uploader'') (field video ''channel''))
                        (field video ''uploader_id'')) (JStr ''Unknown'') \<and>
         field v ''duration'' = js_or (field video ''duration'') (JNum 0) \<and>
         field v ''thumbnailUrl'' \<noteq> JUndefined"
proof -
  from assms obtain u where u: "video_thumbnail env video = Inr u"
    and v: "v = JObj [
            (''id'', field video ''id''),
            (''title'', js_or (field video ''title'') (JStr ''Unknown'')),
            (''author'', js_or (js_or (js_or (field video ''uploader'') (field video ''channel''))
                                (field video ''uploader_id'')) (JStr ''Unknown'')),
            (''duration'', js_or (field video ''duration'') (JNum 0)),
            (''thumbnailUrl'', u)]"
    by (rule video_entry_shape)
  from video_thumbnail_defined [OF u] show ?thesis
    by (simp add: v field_cons)
qed

section \<open>Playlist info: the fallback to the listing API\<close>






section \<open>Array payloads\<close>

lemma tagged_truthy: "type_tag item = JStr t \<Longrightarrow> truthy item"
  by (cases item) (simp_all add: type_tag_def opt_prop_def split: if_splits)

lemma find_playlist_eq:
  "\<forall>item\<in>set xs. \<not> nullish item \<Longrightarrow>
   find_playlist xs = Inr (case find is_playlist_doc xs of Some d \<Rightarrow> d | None \<Rightarrow> JUndefined)"
  by (induction xs) (simp_all add: get_not_nullish bindE_def is_playlist_doc_def type_tag_def)

lemma filter_entries_eq:
  "\<forall>item\<in>set xs. \<not> nullish item \<Longrightarrow> filter_entries xs = Inr (filter is_item xs)"
  by (induction xs) (simp_all add: get_not_nullish bindE_def is_item_def type_tag_def)

lemma find_is_playlist: "find is_playlist_doc xs = Some d \<Longrightarrow> truthy d"
  by (auto simp: find_Some_iff is_playlist_doc_def dest: tagged_truthy)

lemma recover_array:
  assumes "\<forall>item\<in>set xs. \<not> nullish item"
  shows "recover_playlist (JArr xs) =
     Inr (case find is_playlist_doc xs of Some d \<Rightarrow> d | None \<Rightarrow> last_element xs,
          JArr (filter is_item xs))"
  using assms
  by (auto simp: recover_playlist_def find_playlist_eq filter_entries_eq bindE_def js_or_def
      split: option.splits dest: find_is_playlist)

lemma recover_other:
  assumes "\<not> is_array rawData" "\<not> nullish rawData"
  shows "recover_playlist rawData =
     Inr (rawData, if truthy (field rawData ''entries'') then field rawData ''entries'' else JArr [])"
  using assms
  by (cases rawData)
     (simp_all add: recover_playlist_def is_array_def nullish_def bindE_def opt_prop_def
        field_def js_or_def)

lemma hybrid_handlers_use_recovered:
  assumes "required playlistId = Some pid"
    and "getVideoInfo env (playlist_args pid) = Inr metadata"
    and "parse_metadata env metadata = Inr rawData"
    and "recover_playlist rawData = Inr (doc, items)"
  shows "extractor_summary env pid = hybrid_summary env pid doc items"
    and "playlist_videos_hybrid env playlistId =
           ([GetVideoInfo (playlist_args pid)],
            case videos_body env pid doc items of
              Inl error \<Rightarrow> failure ''Failed to fetch playlist videos'' error
            | Inr b \<Rightarrow> ok b)"
  using assms by (simp_all add: extractor_summary_def playlist_videos_hybrid_def bindE_def)

text \<open>
  Claim C6. For an array payload whose elements are not \<open>null\<close>, the recovered
  playlist document is the first element tagged \<open>playlist\<close>, or the last element
  when no element has that tag, and the item list is exactly the elements tagged \<open>url\<close>
  or \<open>video\<close>, in order. For a payload that is not an array (and not \<open>null\<close>),
  the document is the payload and the item list is its \<open>entries\<close> field, the empty
  list when the field is absent. The playlist-info and playlist-videos handlers of the
  hybrid file build their replies from the recovered document and item list.
\<close>

theorem recover_playlist_classifies:
  "((\<forall>item\<in>set xs. \<not> nullish item) \<longrightarrow>
      recover_playlist (JArr xs) =
        Inr (case find is_playlist_doc xs of Some d \<Rightarrow> d | None \<Rightarrow> last_element xs,
             JArr (filter is_item xs))) \<and>
   (\<not> is_array rawData \<and> \<not> nullish rawData \<longrightarrow>
      recover_playlist rawData =
        Inr (rawData,
             if truthy (field rawData ''entries'') then field rawData ''entries'' else JArr [])) \<and>
   (required playlistId = Some pid \<and>
    getVideoInfo env (playlist_args pid) = Inr metadata \<and>
    parse_metadata env metadata = Inr payload \<and>
    recover_playlist payload = Inr (doc, items) \<longrightarrow>
      extractor_summary env pid = hybrid_summary env pid doc items \<and>
      playlist_videos_hybrid env playlistId =
        ([GetVideoInfo (playlist_args pid)],
         case videos_body env pid doc items of
           Inl error \<Rightarrow> failure ''Failed to fetch playlist videos'' error
         | Inr b \<Rightarrow> ok b))"
  using recover_array [of xs] recover_other [of rawData]
    hybrid_handlers_use_recovered [of playlistId pid env metadata payload doc items]
  by blast

lemma mixed_array_not_nullish: "\<forall>item\<in>set mixed_array. \<not> nullish item"
  by (simp add: mixed_array_def nullish_def)

theorem recover_playlist_classifies_witness:
  "recover_playlist (JArr mixed_array) =
     Inr (JObj [(''_type'', JStr ''playlist''), (''title'', JStr ''Mix'')],
          JArr [JObj [(''_type'', JStr ''url''), (''id'', JStr ''a'')],
                JObj [(''_type'', JStr ''video''), (''id'', JStr ''b'')]]) \<and>
   recover_playlist (JObj [(''title'', JStr ''Mix'')]) = Inr (JObj [(''title'', JStr ''Mix'')], JArr []) \<and>
   snd (playlist_videos_hybrid (sample_env (Inr (JArr mixed_array)) (Inl api_error) (Inr []))
          (Some ''PL1'')) =
     \<lparr>status = 200,
      body = JObj [(''playlistId'', JStr ''PL1''), (''title'', JStr ''Mix''),
                   (''itemCount'', JNum 2),
                   (''videos'', JArr [
                      JObj [(''id'', JStr ''a''), (''title'', JStr ''Unknown''),
                            (''author'', JStr ''Unknown''), (''duration'', JNum 0),
                            (''thumbnailUrl'', JStr [])],
                      JObj [(''id'', JStr ''b''), (''title'', JStr ''Unknown''),
                            (''author'', JStr ''Unknown''), (''duration'', JNum 0),
                            (''thumbnailUrl'', JStr [])]])]\<rparr>"
proof -
  let ?env = "sample_env (Inr (JArr mixed_array)) (Inl api_error) (Inr [])"
  let ?doc = "JObj [(''_type'', JStr ''playlist''), (''title'', JStr ''Mix'')]"
  let ?items = "JArr [JObj [(''_type'', JStr ''url''), (''id'', JStr ''a'')],
                JObj [(''_type'', JStr ''video''), (''id'', JStr ''b'')]]"
  have other: "\<not> is_array (JObj [(''title'', JStr ''Mix'')]) \<and> \<not> nullish (JObj [(''title'', JStr ''Mix'')])"
    by (simp add: is_array_def nullish_def)
  have found: "(case find is_playlist_doc mixed_array of Some d \<Rightarrow> d | None \<Rightarrow> last_element mixed_array) = ?doc"
    by (simp add: mixed_array_def is_playlist_doc_def type_tag_def opt_prop_def)
  have kept: "filter is_item mixed_array = [JObj [(''_type'', JStr ''url''), (''id'', JStr ''a'')],
                JObj [(''_type'', JStr ''video''), (''id'', JStr ''b'')]]"
    by (simp add: mixed_array_def is_item_def type_tag_def opt_prop_def)
  have req: "required (Some ''PL1'') = Some ''PL1''"
    by (simp add: required_def)
  have call: "getVideoInfo ?env (playlist_args ''PL1'') = Inr (JArr mixed_array)"
    by (simp add: sample_env_def)
  have parse: "parse_metadata ?env (JArr mixed_array) = Inr (JArr mixed_array)"
    by (simp add: parse_metadata_def)
  note inst = recover_playlist_classifies [of mixed_array "JObj [(''title'', JStr ''Mix'')]"
      "Some ''PL1''" "''PL1''" ?env "JArr mixed_array" "JArr mixed_array" ?doc ?items]
  have rec: "recover_playlist (JArr mixed_array) = Inr (?doc, ?items)"
    using inst mixed_array_not_nullish found kept by simp
  have vb: "videos_body ?env ''PL1'' ?doc ?items = Inr (JObj [(''playlistId'', JStr ''PL1''), (''title'', JStr ''Mix''),
                   (''itemCount'', JNum 2),
                   (''videos'', JArr [
                      JObj [(''id'', JStr ''a''), (''title'', JStr ''Unknown''),
                            (''author'', JStr ''Unknown''), (''duration'', JNum 0),
                            (''thumbnailUrl'', JStr [])],
                      JObj [(''id'', JStr ''b''), (''title'', JStr ''Unknown''),
                            (''author'', JStr ''Unknown''), (''duration'', JNum 0),
                            (''thumbnailUrl'', JStr [])]])])"
    by (simp add: videos_body_def process_entries_def video_entry_def video_thumbnail_def
        bindE_def js_or_def)
  show ?thesis
    using inst other req call parse rec vb
    by (simp add: field_def opt_prop_def ok_def)
qed

section \<open>Playlist videos: the item count\<close>



lemma playlist_videos_ok:
  assumes "status (snd (playlist_videos env playlistId)) = 200"
  shows "\<exists>pid playlistData entries b. videos_body env pid playlistData entries = Inr b \<and>
           snd (playlist_videos env playlistId) = ok b"
  using assms
  by (auto simp: playlist_videos_def bindE_def failure_status missing_status
      split: option.splits sum.splits)





section \<open>Playlist videos: one JSON object per line\<close>

text \<open>
  Claim C3. When the extractor emits one JSON object per line for a playlist,
  \<open>/api/playlist-videos\<close> is to answer with the non-empty list of the entries of the
  parsable lines. Such output reaches the handlers as the array of the parsed lines. On
  it the hybrid draft (src/unnamed/part_000), which handles an array, answers 200 with both
  entries; src/server.js reads the inherited \<open>Array.prototype.entries\<close>, calls
  \<open>map\<close> on it and answers 500 with \<open>entries.map is not a function\<close>; the
  line-by-line draft (src/unnamed/part_002) answers 500 with
  \<open>metadata.split is not a function\<close>.
\<close>

theorem line_output_fails:
  "getVideoInfo lines_env (playlist_args ''PL1'') = Inr (JArr line_objects) \<and>
   playlist_videos lines_env (Some ''PL1'') =
     ([GetVideoInfo (playlist_args ''PL1'')],
      \<lparr>status = 500,
       body = JObj [(''error'', JStr ''Failed to fetch playlist videos''),
                    (''message'', JStr ''entries.map is not a function'')]\<rparr>) \<and>
   getVideoInfo lines_env (lines_args ''PL1'') = Inr (JArr line_objects) \<and>
   playlist_videos_lines lines_env (Some ''PL1'') =
     ([GetVideoInfo (lines_args ''PL1'')],
      \<lparr>status = 500,
       body = JObj [(''error'', JStr ''Failed to fetch playlist videos''),
                    (''message'', JStr ''metadata.split is not a function'')]\<rparr>) \<and>
   playlist_videos_hybrid lines_env (Some ''PL1'') =
     ([GetVideoInfo (playlist_args ''PL1'')],
      \<lparr>status = 200,
       body = JObj [(''playlistId'', JStr ''PL1''), (''title'', JStr []),
                    (''itemCount'', JNum 2),
                    (''videos'', JArr [
                       JObj [(''id'', JStr ''a''), (''title'', JStr ''A''),
                             (''author'', JStr ''Unknown''), (''duration'', JNum 0),
                             (''thumbnailUrl'', JStr [])],
                       JObj [(''id'', JStr ''b''), (''title'', JStr ''Unknown''),
                             (''author'', JStr ''Unknown''), (''duration'', JNum 0),
                             (''thumbnailUrl'', JStr [])]])]\<rparr>)"
proof -
  have c: "getVideoInfo lines_env args = Inr (JArr line_objects)" for args
    by (simp add: lines_env_def sample_env_def)
  have req: "required (Some ''PL1'') = Some ''PL1''"
    by (simp add: required_def)
  have p: "parse_metadata lines_env (JArr line_objects) = Inr (JArr line_objects)"
    by (simp add: parse_metadata_def)
  have s: "playlist_videos lines_env (Some ''PL1'') =
     ([GetVideoInfo (playlist_args ''PL1'')],
      \<lparr>status = 500,
       body = JObj [(''error'', JStr ''Failed to fetch playlist videos''),
                    (''message'', JStr ''entries.map is not a function'')]\<rparr>)"
    by (simp add: playlist_videos_def req c p bindE_def js_or_def videos_body_def
        process_entries_def not_a_function_def failure_def)
  have l: "playlist_videos_lines lines_env (Some ''PL1'') =
     ([GetVideoInfo (lines_args ''PL1'')],
      \<lparr>status = 500,
       body = JObj [(''error'', JStr ''Failed to fetch playlist videos''),
                    (''message'', JStr ''metadata.split is not a function'')]\<rparr>)"
    by (simp add: playlist_videos_lines_def req c bindE_def lines_of_def not_a_function_def
        failure_def)
  have r: "recover_playlist (JArr line_objects) =
      Inr (JObj [(''_type'', JStr ''url''), (''id'', JStr ''b'')], JArr line_objects)"
    by (simp add: recover_playlist_def line_objects_def bindE_def js_or_def last_element_def)
  have v: "videos_body lines_env ''PL1'' (JObj [(''_type'', JStr ''url''), (''id'', JStr ''b'')])
      (JArr line_objects) =
      Inr (JObj [(''playlistId'', JStr ''PL1''), (''title'', JStr []),
                    (''itemCount'', JNum 2),
                    (''videos'', JArr [
                       JObj [(''id'', JStr ''a''), (''title'', JStr ''A''),
                             (''author'', JStr ''Unknown''), (''duration'', JNum 0),
                             (''thumbnailUrl'', JStr [])],
                       JObj [(''id'', JStr ''b''), (''title'', JStr ''Unknown''),
                             (''author'', JStr ''Unknown''), (''duration'', JNum 0),
                             (''thumbnailUrl'', JStr [])]])])"
    by (simp add: videos_body_def process_entries_def line_objects_def video_entry_def
        video_thumbnail_def bindE_def js_or_def)
  have h: "playlist_videos_hybrid lines_env (Some ''PL1'') =
     ([GetVideoInfo (playlist_args ''PL1'')],
      \<lparr>status = 200,
       body = JObj [(''playlistId'', JStr ''PL1''), (''title'', JStr []),
                    (''itemCount'', JNum 2),
                    (''videos'', JArr [
                       JObj [(''id'', JStr ''a''), (''title'', JStr ''A''),
                             (''author'', JStr ''Unknown''), (''duration'', JNum 0),
                             (''thumbnailUrl'', JStr [])],
                       JObj [(''id'', JStr ''b''), (''title'', JStr ''Unknown''),
                             (''author'', JStr ''Unknown''), (''duration'', JNum 0),
                             (''thumbnailUrl'', JStr [])]])]\<rparr>)"
    by (simp add: playlist_videos_hybrid_def req c p r v bindE_def ok_def)
  from c s l h show ?thesis by simp
qed

section \<open>Missing parameters and missing tokens\<close>

theorem missing_parameter_message_counterexample:
  "status (snd (playlist_info idle_env None)) = 400 \<and>
   field (body (snd (playlist_info idle_env None))) ''error'' =
     JStr ''playlistId parameter is required'' \<and>
   field (body (snd (playlist_info idle_env None))) ''message'' = JUndefined"
  by (simp add: playlist_info_def required_def missing_parameter_def field_def opt_prop_def)

text \<open>
  Claim C5, as amended. A request to \<open>/api/playlist-info\<close>,
  \<open>/api/playlist-videos\<close>, \<open>/api/download-info\<close> or \<open>/api/download\<close> without
  its \<open>playlistId\<close> or \<open>videoId\<close> (absent, or empty) is answered with status 400 and
  the body \<open>{error: '<name> parameter is required'}\<close>, and no call to the extractor
  is made. The body has the \<open>error\<close> field only: there is no \<open>message\<close> field.
\<close>

theorem missing_parameter_rejected:
  "required q = None \<Longrightarrow>
   playlist_info env q =
     ([], \<lparr>status = 400, body = JObj [(''error'', JStr ''playlistId parameter is required'')]\<rparr>) \<and>
   playlist_info_hybrid env q authHeader =
     ([], \<lparr>status = 400, body = JObj [(''error'', JStr ''playlistId parameter is required'')]\<rparr>) \<and>
   playlist_videos env q =
     ([], \<lparr>status = 400, body = JObj [(''error'', JStr ''playlistId parameter is required'')]\<rparr>) \<and>
   playlist_videos_hybrid env q =
     ([], \<lparr>status = 400, body = JObj [(''error'', JStr ''playlistId parameter is required'')]\<rparr>) \<and>
   download_info env q =
     ([], \<lparr>status = 400, body = JObj [(''error'', JStr ''videoId parameter is required'')]\<rparr>) \<and>
   fst (download env q) = [] \<and>
   statusCode (snd (download env q)) = 400 \<and>
   written (snd (download env q)) =
     [JsonBody (JObj [(''error'', JStr ''videoId parameter is required'')])]"
  by (simp add: playlist_info_def playlist_info_hybrid_def playlist_videos_def
      playlist_videos_hybrid_def download_info_def download_def missing_parameter_def
      send_json_def new_res_def)

theorem missing_parameter_rejected_witness:
  "required None = None \<and> required (Some []) = None \<and>
   playlist_info idle_env None =
     ([], \<lparr>status = 400, body = JObj [(''error'', JStr ''playlistId parameter is required'')]\<rparr>) \<and>
   download_info idle_env (Some []) =
     ([], \<lparr>status = 400, body = JObj [(''error'', JStr ''videoId parameter is required'')]\<rparr>) \<and>
   fst (download idle_env None) = [] \<and> statusCode (snd (download idle_env None)) = 400"
proof -
  have n: "required None = None" and e: "required (Some []) = None"
    by (simp_all add: required_def)
  from missing_parameter_rejected [OF n, of idle_env None]
    missing_parameter_rejected [OF e, of idle_env None] n e
  show ?thesis by simp
qed

lemma no_bearer_unauthorized:
  "bearer_token authHeader = None \<Longrightarrow>
   user_playlists env authHeader =
     ([], \<lparr>status = 401, body = JObj [(''error'', JStr ''Authorization token required'')]\<rparr>)"
  by (simp add: user_playlists_def unauthorized_def)

lemma rejected_token_unauthorized:
  assumes "bearer_token authHeader = Some tok"
    and "playlists_list env tok (ListMine api_parts 50) = Inl e"
    and "code e = JNum 401"
  shows "user_playlists env authHeader =
     ([PlaylistsList tok (ListMine api_parts 50)],
      \<lparr>status = 401, body = JObj [(''error'', JStr ''Invalid or expired token''),
                                  (''message'', JStr ''Please sign in again'')]\<rparr>)"
  using assms by (simp add: user_playlists_def unauthorized_def bindE_def)

text \<open>
  Claim C8. A request to \<open>/api/user-playlists\<close> without an \<open>Authorization\<close>
  header, or with one that does not start with \<open>Bearer \<close>, is answered with status
  401 and an \<open>error\<close> field, and no call to the listing API is made. With a bearer
  token that the listing API rejects with code 401 (an invalid or expired token), the
  reply has status 401 and an \<open>error\<close> field.
\<close>

theorem user_playlists_unauthorized:
  "(authHeader = None \<longrightarrow>
      user_playlists env authHeader =
        ([], \<lparr>status = 401, body = JObj [(''error'', JStr ''Authorization token required'')]\<rparr>)) \<and>
   (\<forall>h. authHeader = Some h \<and> \<not> starts_with h ''Bearer '' \<longrightarrow>
      user_playlists env authHeader =
        ([], \<lparr>status = 401, body = JObj [(''error'', JStr ''Authorization token required'')]\<rparr>)) \<and>
   (\<forall>tok e. authHeader = Some (''Bearer '' @ tok) \<and>
      playlists_list env tok (ListMine api_parts 50) = Inl e \<and> code e = JNum 401 \<longrightarrow>
      status (snd (user_playlists env authHeader)) = 401 \<and>
      field (body (snd (user_playlists env authHeader))) ''error'' =
        JStr ''Invalid or expired token'')"
proof (intro conjI allI impI)
  assume "authHeader = None"
  then show "user_playlists env authHeader =
        ([], \<lparr>status = 401, body = JObj [(''error'', JStr ''Authorization token required'')]\<rparr>)"
    by (simp add: no_bearer_unauthorized bearer_token_def)
next
  fix h assume "authHeader = Some h \<and> \<not> starts_with h ''Bearer ''"
  then show "user_playlists env authHeader =
        ([], \<lparr>status = 401, body = JObj [(''error'', JStr ''Authorization token required'')]\<rparr>)"
    by (simp add: no_bearer_unauthorized bearer_token_def)
next
  fix tok e
  assume a: "authHeader = Some (''Bearer '' @ tok) \<and>
      playlists_list env tok (ListMine api_parts 50) = Inl e \<and> code e = JNum 401"
  then have "bearer_token authHeader = Some tok"
    by (simp add: bearer_token_def starts_with_def)
  with a have r: "user_playlists env authHeader =
     ([PlaylistsList tok (ListMine api_parts 50)],
      \<lparr>status = 401, body = JObj [(''error'', JStr ''Invalid or expired token''),
                                  (''message'', JStr ''Please sign in again'')]\<rparr>)"
    by (simp add: rejected_token_unauthorized)
  show "status (snd (user_playlists env authHeader)) = 401"
    by (simp add: r)
  show "field (body (snd (user_playlists env authHeader))) ''error'' =
        JStr ''Invalid or expired token''"
    by (simp add: r field_def opt_prop_def)
qed

theorem user_playlists_unauthorized_witness:
  "user_playlists idle_env None =
     ([], \<lparr>status = 401, body = JObj [(''error'', JStr ''Authorization token required'')]\<rparr>) \<and>
   user_playlists idle_env (Some ''Basic dXNlcg=='') =
     ([], \<lparr>status = 401, body = JObj [(''error'', JStr ''Authorization token required'')]\<rparr>) \<and>
   code api_error = JNum 401 \<and>
   status (snd (user_playlists idle_env (Some ''Bearer expired''))) = 401 \<and>
   field (body (snd (user_playlists idle_env (Some ''Bearer expired'')))) ''error'' =
     JStr ''Invalid or expired token''"
proof -
  have basic: "\<not> starts_with ''Basic dXNlcg=='' ''Bearer ''"
    by (simp add: starts_with_def)
  have bearer: "Some ''Bearer expired'' = Some (''Bearer '' @ ''expired'')"
    by simp
  have api: "playlists_list idle_env ''expired'' (ListMine api_parts 50) = Inl api_error"
    by (simp add: idle_env_def sample_env_def)
  have c: "code api_error = JNum 401"
    by (simp add: api_error_def)
  from user_playlists_unauthorized [of None idle_env]
  have r1: "user_playlists idle_env None =
     ([], \<lparr>status = 401, body = JObj [(''error'', JStr ''Authorization token required'')]\<rparr>)"
    by blast
  from user_playlists_unauthorized [of "Some ''Basic dXNlcg==''" idle_env] basic
  have r2: "user_playlists idle_env (Some ''Basic dXNlcg=='') =
     ([], \<lparr>status = 401, body = JObj [(''error'', JStr ''Authorization token required'')]\<rparr>)"
    by blast
  from user_playlists_unauthorized [of "Some ''Bearer expired''" idle_env] bearer api c
  have r3: "status (snd (user_playlists idle_env (Some ''Bearer expired''))) = 401 \<and>
   field (body (snd (user_playlists idle_env (Some ''Bearer expired'')))) ''error'' =
     JStr ''Invalid or expired token''"
    by blast
  from r1 r2 r3 c show ?thesis by blast
qed

section \<open>The download stream\<close>

lemma on_event_sent:
  "headersSent r \<Longrightarrow>
   headersSent (on_event r ev) \<and> statusCode (on_event r ev) = statusCode r \<and>
   headers (on_event r ev) = headers r \<and>
   json_bodies (written (on_event r ev)) = json_bodies (written r)"
  by (cases ev)
     (simp_all add: on_event_def write_chunk_def end_res_def on_stream_error_def json_bodies_def)

lemma events_sent:
  "headersSent r \<Longrightarrow>
   headersSent (foldl on_event r events) \<and>
   statusCode (foldl on_event r events) = statusCode r \<and>
   headers (foldl on_event r events) = headers r \<and>
   json_bodies (written (foldl on_event r events)) = json_bodies (written r)"
proof (induction events arbitrary: r)
  case Nil
  then show ?case by simp
next
  case (Cons ev events)
  from on_event_sent [OF Cons.prems, of ev] Cons.IH [of "on_event r ev"]
  show ?case by simp
qed

lemma on_event_states: "download_states r \<Longrightarrow> download_states (on_event r ev)"
  by (cases ev)
     (auto simp: download_states_def on_event_def write_chunk_def end_res_def
        on_stream_error_def send_json_def json_bodies_def)

lemma events_states: "download_states r \<Longrightarrow> download_states (foldl on_event r events)"
  by (induction events arbitrary: r) (simp_all add: on_event_states)

lemma download_reaches_states: "download_states (snd (download env videoId))"
proof -
  have fresh: "download_states new_res"
    by (simp add: download_states_def new_res_def)
  have json: "download_states (send_json c b new_res)" for c b
    by (simp add: download_states_def send_json_def new_res_def)
  have caught: "download_states (on_catch e r)" if "download_states r" for e r
    using that by (auto simp: on_catch_def download_states_def send_json_def)
  have hdr: "download_states (setHeader k v r)" if "download_states r" for k v r
    using that by (simp add: download_states_def setHeader_def)
  show ?thesis
    by (auto simp: download_def Let_def json caught hdr fresh events_states
        split: option.splits sum.splits)
qed

text \<open>
  Claim C9. Once the headers of a download response have been sent, neither the
  \<open>'error'\<close> listener of the stream nor the outer \<open>catch\<close> changes the response,
  and no sequence of stream events changes its status code, its headers or the JSON
  bodies written so far: an error after that point emits nothing. Every response of
  \<open>/api/download\<close> is therefore either untouched, or one JSON reply and nothing
  else, or bytes only under status 200.
\<close>

theorem no_error_reply_after_headers:
  "(headersSent r \<longrightarrow>
      on_stream_error e r = r \<and> on_catch e r = r \<and>
      headersSent (foldl on_event r events) \<and>
      statusCode (foldl on_event r events) = statusCode r \<and>
      headers (foldl on_event r events) = headers r \<and>
      json_bodies (written (foldl on_event r events)) = json_bodies (written r)) \<and>
   download_states (snd (download env videoId))"
  using events_sent [of r events] download_reaches_states [of env videoId]
  by (simp add: on_stream_error_def on_catch_def)

theorem no_error_reply_after_headers_witness:
  "headersSent (write_chunk ''abc'' new_res) \<and>
   foldl on_event (write_chunk ''abc'' new_res) [StreamError private_error, End] =
     \<lparr>statusCode = 200, headers = Map.empty, headersSent = True,
      written = [Bytes ''abc''], finished = True\<rparr> \<and>
   statusCode (foldl on_event new_res [StreamError private_error, Data ''abc'']) = 500 \<and>
   json_bodies (written (foldl on_event (write_chunk ''abc'' new_res)
                           [StreamError private_error, End])) = [] \<and>
   execStream hello_env (stream_args ''abc123'') =
     Inr [Data ''abc'', StreamError private_error, End] \<and>
   written (snd (download hello_env (Some ''abc123''))) = [Bytes ''abc''] \<and>
   statusCode (snd (download hello_env (Some ''abc123''))) = 200 \<and>
   download_states (snd (download hello_env (Some ''abc123'')))"
proof -
  have s: "headersSent (write_chunk ''abc'' new_res)"
    by (simp add: write_chunk_def new_res_def)
  have j: "json_bodies (written (write_chunk ''abc'' new_res)) = []"
    by (simp add: write_chunk_def new_res_def json_bodies_def)
  have f: "foldl on_event (write_chunk ''abc'' new_res) [StreamError private_error, End] =
     \<lparr>statusCode = 200, headers = Map.empty, headersSent = True,
      written = [Bytes ''abc''], finished = True\<rparr>"
    by (simp add: on_event_def on_stream_error_def end_res_def write_chunk_def new_res_def)
  have early: "statusCode (foldl on_event new_res [StreamError private_error, Data ''abc'']) = 500"
    by (simp add: on_event_def on_stream_error_def send_json_def write_chunk_def new_res_def)
  have ev: "execStream hello_env (stream_args ''abc123'') =
     Inr [Data ''abc'', StreamError private_error, End]"
    by (simp add: hello_env_def sample_env_def)
  have d: "written (snd (download hello_env (Some ''abc123''))) = [Bytes ''abc'']"
    "statusCode (snd (download hello_env (Some ''abc123''))) = 200"
    by (simp_all add: download_def required_def hello_env_def sample_env_def parse_metadata_def
        bindE_def file_title_def on_event_def write_chunk_def end_res_def on_stream_error_def
        setHeader_def new_res_def)
  note inst = no_error_reply_after_headers [of "write_chunk ''abc'' new_res" private_error
      "[StreamError private_error, End]" hello_env "Some ''abc123''"]
  from inst s j
  have k: "json_bodies (written (foldl on_event (write_chunk ''abc'' new_res)
                           [StreamError private_error, End])) = []"
    by simp
  from inst have "download_states (snd (download hello_env (Some ''abc123'')))"
    by simp
  with s f early k ev d show ?thesis by blast
qed

section \<open>The file name of a download\<close>

lemma on_event_keeps_or_fails:
  "(headers (on_event r ev) = headers r \<and> statusCode (on_event r ev) = statusCode r) \<or>
   (headersSent (on_event r ev) \<and> statusCode (on_event r ev) = 500)"
  by (cases ev)
     (simp_all add: on_event_def write_chunk_def end_res_def on_stream_error_def send_json_def)

lemma events_keep_headers:
  "statusCode r = 200 \<Longrightarrow> statusCode (foldl on_event r events) = 200 \<Longrightarrow>
   headers (foldl on_event r events) = headers r"
proof (induction events arbitrary: r)
  case Nil
  then show ?case by simp
next
  case (Cons ev events)
  from on_event_keeps_or_fails [of r ev] show ?case
  proof
    assume keep: "headers (on_event r ev) = headers r \<and> statusCode (on_event r ev) = statusCode r"
    with Cons.prems Cons.IH [of "on_event r ev"] show ?thesis by simp
  next
    assume failed: "headersSent (on_event r ev) \<and> statusCode (on_event r ev) = 500"
    then have "statusCode (foldl on_event (on_event r ev) events) = 500"
      using events_sent [of "on_event r ev" events] by simp
    with Cons.prems show ?thesis by simp
  qed
qed

lemma sanitize_char:
  "is_file_char (toLowerCase (if is_alnum c then c else CHR ''_''))"
proof (cases "is_alnum c")
  case False
  then show ?thesis by (simp add: toLowerCase_def is_file_char_def)
next
  case True
  show ?thesis
  proof (cases "65 \<le> (of_char c :: nat) \<and> (of_char c :: nat) \<le> 90")
    case upper: True
    then have "toLowerCase c = char_of (of_char c + 32 :: nat)"
      by (simp add: toLowerCase_def)
    moreover have "(of_char (char_of (of_char c + 32 :: nat)) :: nat) = of_char c + 32"
      using upper by simp
    ultimately show ?thesis
      using True upper by (simp add: is_file_char_def Let_def)
  next
    case False
    with True have "toLowerCase c = c"
      by (auto simp: toLowerCase_def is_alnum_def Let_def)
    with True False show ?thesis
      by (auto simp: is_file_char_def is_alnum_def Let_def)
  qed
qed

lemma sanitize_chars: "\<forall>c\<in>set (sanitize title). is_file_char c"
  by (auto simp: sanitize_def sanitize_char)

lemma sanitize_pointwise:
  "sanitize title = map (\<lambda>c. if is_alnum c then toLowerCase c else CHR ''_'') title"
  by (simp add: sanitize_def toLowerCase_def)

lemma reported_title_cases:
  assumes "reported_title env vid = Inr (JStr t)"
  obtains metadata info where "getVideoInfo env (video_args vid) = Inr metadata"
    and "parse_metadata env metadata = Inr info" and "get info ''title'' = Inr (JStr t)"
  using assms by (auto simp: reported_title_def bindE_def split: sum.splits)

lemma get_title_not_nullish: "get info k = Inr v \<Longrightarrow> \<not> nullish info"
  by (cases info) (simp_all add: nullish_def)

lemma download_headers:
  assumes req: "required videoId = Some vid"
    and title: "reported_title env vid = Inr (JStr t)"
    and ok: "statusCode (snd (download env videoId)) = 200"
  shows "headers (snd (download env videoId)) ''Content-Disposition'' =
           Some (''attachment; filename='' @ [CHR 0x22] @ sanitize t @ ''.m4a'' @ [CHR 0x22])"
    and "headers (snd (download env videoId)) ''Content-Type'' = Some ''audio/mp4''"
proof -
  let ?r = "setHeader ''Content-Type'' ''audio/mp4''
              (setHeader ''Content-Disposition'' (content_disposition (sanitize t)) new_res)"
  from title obtain metadata info where m: "getVideoInfo env (video_args vid) = Inr metadata"
    and p: "parse_metadata env metadata = Inr info" and g: "get info ''title'' = Inr (JStr t)"
    by (rule reported_title_cases)
  have d: "snd (download env videoId) =
      (case execStream env (stream_args vid) of
         Inl error \<Rightarrow> on_catch error ?r
       | Inr events \<Rightarrow> foldl on_event ?r events)"
    using req m p g by (simp add: download_def bindE_def file_title_def Let_def)
  have fresh: "statusCode ?r = 200" "\<not> headersSent ?r"
    by (simp_all add: setHeader_def new_res_def)
  from ok d fresh obtain events where ev: "execStream env (stream_args vid) = Inr events"
    by (cases "execStream env (stream_args vid)") (auto simp: on_catch_def send_json_def)
  with d have s: "snd (download env videoId) = foldl on_event ?r events" by simp
  with ok fresh have "headers (snd (download env videoId)) = headers ?r"
    by (simp add: events_keep_headers)
  then show "headers (snd (download env videoId)) ''Content-Disposition'' =
           Some (''attachment; filename='' @ [CHR 0x22] @ sanitize t @ ''.m4a'' @ [CHR 0x22])"
    and "headers (snd (download env videoId)) ''Content-Type'' = Some ''audio/mp4''"
    by (simp_all add: setHeader_def content_disposition_def)
qed

lemma download_info_title:
  assumes req: "required videoId = Some vid"
    and title: "reported_title env vid = Inr (JStr t)"
  shows "status (snd (download_info env videoId)) = 200"
    and "field (body (snd (download_info env videoId))) ''title'' = JStr t"
proof -
  from title obtain metadata info where m: "getVideoInfo env (video_args vid) = Inr metadata"
    and p: "parse_metadata env metadata = Inr info" and g: "get info ''title'' = Inr (JStr t)"
    by (rule reported_title_cases)
  from g have n: "\<not> nullish info" by (rule get_title_not_nullish)
  have "download_info_body vid info = Inr (JObj [
         (''videoId'', JStr vid),
         (''title'', JStr t),
         (''author'', js_or (js_or (opt_prop info ''uploader'') (opt_prop info ''channel'')) (JStr ''Unknown'')),
         (''lengthSeconds'', js_or (opt_prop info ''duration'') (JNum 0)),
         (''downloadUrl'', JStr (video_url vid)),
         (''quality'', JStr ''best''),
         (''format'', JStr ''audio/mp4'')])"
    using g by (simp add: download_info_body_def bindE_def get_not_nullish [OF n])
  then show "status (snd (download_info env videoId)) = 200"
    and "field (body (snd (download_info env videoId))) ''title'' = JStr t"
    using req m p
    by (simp_all add: download_info_def bindE_def ok_def field_def opt_prop_def)
qed

lemma video_entry_title:
  assumes "video_entry env video = Inr v" and "v \<noteq> JNull"
    and "field video ''title'' = JStr t" and "t \<noteq> []"
  shows "field v ''title'' = JStr t"
  using video_entry_values [OF assms(1,2)] assms(3,4) by (simp add: js_or_def)

text \<open>
  Claim C4. When \<open>/api/download\<close> succeeds (status 200) for a video whose title the
  extractor reports as the string \<open>t\<close>, the \<open>Content-Disposition\<close> header is
  \<open>attachment; filename="<s>.m4a"\<close> where \<open>s\<close> is \<open>t\<close> with every character
  outside \<open>[a-zA-Z0-9]\<close> replaced by \<open>_\<close> and the rest lowercased, so \<open>s\<close> has
  lowercase letters, digits and underscores only; the \<open>Content-Type\<close> header is
  \<open>audio/mp4\<close>. JSON replies carry the title itself, unsanitized: the reply of
  \<open>/api/download-info\<close> for the same video has the title \<open>t\<close>, and so has the
  entry of \<open>/api/playlist-videos\<close> for a video with the (non-empty) title \<open>t\<close>.
\<close>

theorem download_file_name:
  "(required videoId = Some vid \<and> reported_title env vid = Inr (JStr t) \<and>
    statusCode (snd (download env videoId)) = 200 \<longrightarrow>
      headers (snd (download env videoId)) ''Content-Disposition'' =
        Some (''attachment; filename='' @ [CHR 0x22] @ sanitize t @ ''.m4a'' @ [CHR 0x22]) \<and>
      headers (snd (download env videoId)) ''Content-Type'' = Some ''audio/mp4'' \<and>
      sanitize t = map (\<lambda>c. if is_alnum c then toLowerCase c else CHR ''_'') t \<and>
      (\<forall>c\<in>set (sanitize t). is_file_char c) \<and>
      status (snd (download_info env videoId)) = 200 \<and>
      field (body (snd (download_info env videoId))) ''title'' = JStr t) \<and>
   (video_entry env video = Inr v \<and> v \<noteq> JNull \<and> field video ''title'' = JStr t \<and> t \<noteq> [] \<longrightarrow>
      field v ''title'' = JStr t)"
  using download_headers [of videoId vid env t] download_info_title [of videoId vid env t]
    sanitize_chars [of t] sanitize_pointwise [of t] video_entry_title [of env video v t]
  by blast

lemma sanitize_hello: "sanitize ''Hello, World! 42'' = ''hello__world__42''"
  by code_simp

theorem download_file_name_witness:
  "reported_title hello_env ''abc123'' = Inr (JStr ''Hello, World! 42'') \<and>
   statusCode (snd (download hello_env (Some ''abc123''))) = 200 \<and>
   headers (snd (download hello_env (Some ''abc123''))) ''Content-Disposition'' =
     Some (''attachment; filename='' @ [CHR 0x22] @ ''hello__world__42.m4a'' @ [CHR 0x22]) \<and>
   headers (snd (download hello_env (Some ''abc123''))) ''Content-Type'' = Some ''audio/mp4'' \<and>
   field (body (snd (download_info hello_env (Some ''abc123'')))) ''title'' =
     JStr ''Hello, World! 42'' \<and>
   video_entry hello_env (JObj [(''title'', JStr ''Hello, World! 42'')]) =
     Inr (JObj [(''id'', JUndefined), (''title'', JStr ''Hello, World! 42''),
                (''author'', JStr ''Unknown''), (''duration'', JNum 0),
                (''thumbnailUrl'', JStr [])])"
proof -
  let ?video = "JObj [(''title'', JStr ''Hello, World! 42'')]"
  let ?v = "JObj [(''id'', JUndefined), (''title'', JStr ''Hello, World! 42''),
                (''author'', JStr ''Unknown''), (''duration'', JNum 0),
                (''thumbnailUrl'', JStr [])]"
  have req: "required (Some ''abc123'') = Some ''abc123''"
    by (simp add: required_def)
  have t: "reported_title hello_env ''abc123'' = Inr (JStr ''Hello, World! 42'')"
    by (simp add: reported_title_def hello_env_def sample_env_def parse_metadata_def bindE_def)
  have st: "statusCode (snd (download hello_env (Some ''abc123''))) = 200"
    by (simp add: download_def required_def hello_env_def sample_env_def parse_metadata_def
        bindE_def file_title_def on_event_def write_chunk_def end_res_def on_stream_error_def
        setHeader_def new_res_def)
  have e: "video_entry hello_env ?video = Inr ?v"
    by (simp add: video_entry_def video_thumbnail_def bindE_def js_or_def)
  have f: "field ?video ''title'' = JStr ''Hello, World! 42''"
    by (simp add: field_def opt_prop_def)
  note inst = download_file_name [of "Some ''abc123''" "''abc123''" hello_env
      "''Hello, World! 42''" ?video ?v]
  from inst e f have "field ?v ''title'' = JStr ''Hello, World! 42''"
    by simp
  with inst req t st sanitize_hello e show ?thesis by simp
qed

section \<open>Download info\<close>

lemma download_info_body_eq:
  "\<not> nullish info \<Longrightarrow>
   download_info_body vid info = Inr (JObj [
     (''videoId'', JStr vid),
     (''title'', field info ''title''),
     (''author'', js_or (js_or (field info ''uploader'') (field info ''channel'')) (JStr ''Unknown'')),
     (''lengthSeconds'', js_or (field info ''duration'') (JNum 0)),
     (''downloadUrl'', JStr (video_url vid)),
     (''quality'', JStr ''best''),
     (''format'', JStr ''audio/mp4'')])"
  by (simp add: download_info_body_def bindE_def get_not_nullish field_def)

lemma download_info_reply:
  assumes "required videoId = Some vid"
    and "getVideoInfo env (video_args vid) = Inr metadata"
    and "parse_metadata env metadata = Inr info"
    and "\<not> nullish info"
  shows "download_info env videoId =
    ([GetVideoInfo (video_args vid)],
     \<lparr>status = 200, body = JObj [
       (''videoId'', JStr vid),
       (''title'', field info ''title''),
       (''author'', js_or (js_or (field info ''uploader'') (field info ''channel'')) (JStr ''Unknown'')),
       (''lengthSeconds'', js_or (field info ''duration'') (JNum 0)),
       (''downloadUrl'', JStr (video_url vid)),
       (''quality'', JStr ''best''),
       (''format'', JStr ''audio/mp4'')]\<rparr>)"
  using assms by (simp add: download_info_def bindE_def download_info_body_eq ok_def)

lemma download_info_body_constants:
  assumes "download_info_body vid info = Inr b"
  shows "field b ''downloadUrl'' = JStr (''https://www.youtube.com/watch?v='' @ vid) \<and>
         field b ''quality'' = JStr ''best'' \<and> field b ''format'' = JStr ''audio/mp4''"
  using assms
  by (auto simp: download_info_body_def bindE_def field_cons video_url_def split: sum.splits)

lemma download_info_success:
  assumes "required videoId = Some vid" and "status (snd (download_info env videoId)) = 200"
  obtains info b where "download_info_body vid info = Inr b"
    and "download_info env videoId = ([GetVideoInfo (video_args vid)], ok b)"
  using assms
  by (auto simp: download_info_def bindE_def failure_status split: sum.splits)

lemma reduce_best_first: "reduce_best env JNull [format] = Inr format"
  by (simp add: better_def bindE_def)

lemma ytdl_success:
  assumes "required videoId = Some vid" and "validateURL lib (video_url vid)"
    and "getInfo lib (video_url vid) = Inr info"
    and "filterFormats lib (field info ''formats'') ''audioonly'' = Inr audioFormats"
    and "reduce_best env JNull audioFormats = Inr bestAudio"
    and "status (snd (download_info_ytdl lib env videoId)) = 200"
  obtains b where "ytdl_body env vid info bestAudio = Inr b"
    and "download_info_ytdl lib env videoId = ([GetInfo (video_url vid)], ok b)"
proof (cases "get info ''formats''")
  case (Inl e)
  with assms show ?thesis
    by (simp add: download_info_ytdl_def bindE_def failure_status)
next
  case (Inr formats)
  then have "formats = field info ''formats''" by (rule get_Inr_field)
  with Inr assms that show ?thesis
    by (cases "ytdl_body env vid info bestAudio")
       (simp_all add: download_info_ytdl_def bindE_def failure_status)
qed

lemma ytdl_body_fields:
  assumes "ytdl_body env vid info bestAudio = Inr b"
  shows "field b ''title'' = field (field info ''videoDetails'') ''title'' \<and>
         field b ''lengthSeconds'' = field (field info ''videoDetails'') ''lengthSeconds'' \<and>
         field b ''downloadUrl'' =
           (if truthy (field bestAudio ''url'') then field bestAudio ''url'' else JNull) \<and>
         field b ''quality'' =
           (if truthy (field bestAudio ''audioBitrate'') then field bestAudio ''audioBitrate''
            else JStr ''unknown'') \<and>
         (\<exists>mimeType. mime_type bestAudio = Inr mimeType \<and>
            field b ''format'' = (if truthy mimeType then mimeType else JStr ''audio/webm''))"
proof -
  from assms obtain videoDetails where d: "get info ''videoDetails'' = Inr videoDetails"
    by (cases "get info ''videoDetails''") (simp_all add: ytdl_body_def bindE_def)
  from assms d obtain title where t: "get videoDetails ''title'' = Inr title"
    by (cases "get videoDetails ''title''") (simp_all add: ytdl_body_def bindE_def)
  from assms d t obtain author where a: "get videoDetails ''author'' = Inr author"
    by (cases "get videoDetails ''author''") (simp_all add: ytdl_body_def bindE_def)
  from assms d t a obtain name where n: "get author ''name'' = Inr name"
    by (cases "get author ''name''") (simp_all add: ytdl_body_def bindE_def)
  from assms d t a n obtain lengthSeconds where
    l: "get videoDetails ''lengthSeconds'' = Inr lengthSeconds"
    by (cases "get videoDetails ''lengthSeconds''") (simp_all add: ytdl_body_def bindE_def)
  from assms d t a n l obtain mimeType where m: "mime_type bestAudio = Inr mimeType"
    by (cases "mime_type bestAudio") (simp_all add: ytdl_body_def bindE_def)
  from assms d t a n l m have b: "b = JObj [
         (''videoId'', JStr vid),
         (''title'', title),
         (''author'', name),
         (''lengthSeconds'', lengthSeconds),
         (''downloadUrl'', js_or (opt_prop bestAudio ''url'') JNull),
         (''quality'', js_or (opt_prop bestAudio ''audioBitrate'') (JStr ''unknown'')),
         (''format'', js_or mimeType (JStr ''audio/webm''))]"
    by (simp add: ytdl_body_def bindE_def)
  from d have d': "videoDetails = field info ''videoDetails''" by (rule get_Inr_field)
  from t have t': "title = field videoDetails ''title''" by (rule get_Inr_field)
  from l have l': "lengthSeconds = field videoDetails ''lengthSeconds''" by (rule get_Inr_field)
  have "field b ''title'' = title" "field b ''lengthSeconds'' = lengthSeconds"
    "field b ''downloadUrl'' = js_or (field bestAudio ''url'') JNull"
    "field b ''quality'' = js_or (field bestAudio ''audioBitrate'') (JStr ''unknown'')"
    "field b ''format'' = js_or mimeType (JStr ''audio/webm'')"
    unfolding b by (simp_all add: field_cons field_def [of bestAudio])
  with d' t' l' m show ?thesis
    by (simp add: js_or_def)
qed

text \<open>
  Claim C7, as amended. A successful (200) reply of \<open>/api/download-info\<close> of
  src/server.js comes after one extractor call and has the watch URL
  \<open>https://www.youtube.com/watch?v=<id>\<close> as \<open>downloadUrl\<close>, quality \<open>best\<close> and
  format \<open>audio/mp4\<close>. Whenever the extractor resolves the id to a document, the reply is
  successful, its title is the extractor's title unchanged, and its \<open>lengthSeconds\<close> is
  the extractor's duration when that is truthy and 0 otherwise: the title is non-empty and
  \<open>lengthSeconds\<close> a number not below 0 only when the extractor's values are. A
  successful reply of the ytdl-core draft (src/unnamed/part_001) comes after one call of
  \<open>ytdl.getInfo\<close> and has the title and \<open>lengthSeconds\<close> of the library's
  \<open>videoDetails\<close> unchanged; its \<open>downloadUrl\<close> is the url of the best audio-only
  format, a direct media URL, or \<open>null\<close>, its quality that format's bitrate or
  \<open>unknown\<close>, and its format that format's mime type up to the first \<open>;\<close> or
  \<open>audio/webm\<close>.
\<close>

theorem download_info_passes_metadata:
  "(required videoId = Some vid \<and> status (snd (download_info env videoId)) = 200 \<longrightarrow>
      fst (download_info env videoId) = [GetVideoInfo (video_args vid)] \<and>
      field (body (snd (download_info env videoId))) ''downloadUrl'' =
        JStr (''https://www.youtube.com/watch?v='' @ vid) \<and>
      field (body (snd (download_info env videoId))) ''quality'' = JStr ''best'' \<and>
      field (body (snd (download_info env videoId))) ''format'' = JStr ''audio/mp4'') \<and>
   (required videoId = Some vid \<and> getVideoInfo env (video_args vid) = Inr metadata \<and>
    parse_metadata env metadata = Inr info \<and> \<not> nullish info \<longrightarrow>
      status (snd (download_info env videoId)) = 200 \<and>
      field (body (snd (download_info env videoId))) ''title'' = field info ''title'' \<and>
      field (body (snd (download_info env videoId))) ''lengthSeconds'' =
        (if truthy (field info ''duration'') then field info ''duration'' else JNum 0)) \<and>
   (required videoId = Some vid \<and> validateURL lib (video_url vid) \<and>
    getInfo lib (video_url vid) = Inr details \<and>
    filterFormats lib (field details ''formats'') ''audioonly'' = Inr audioFormats \<and>
    reduce_best env JNull audioFormats = Inr bestAudio \<and>
    status (snd (download_info_ytdl lib env videoId)) = 200 \<longrightarrow>
      fst (download_info_ytdl lib env videoId) = [GetInfo (video_url vid)] \<and>
      field (body (snd (download_info_ytdl lib env videoId))) ''title'' =
        field (field details ''videoDetails'') ''title'' \<and>
      field (body (snd (download_info_ytdl lib env videoId))) ''lengthSeconds'' =
        field (field details ''videoDetails'') ''lengthSeconds'' \<and>
      field (body (snd (download_info_ytdl lib env videoId))) ''downloadUrl'' =
        (if truthy (field bestAudio ''url'') then field bestAudio ''url'' else JNull) \<and>
      field (body (snd (download_info_ytdl lib env videoId))) ''quality'' =
        (if truthy (field bestAudio ''audioBitrate'') then field bestAudio ''audioBitrate''
         else JStr ''unknown'') \<and>
      (\<exists>mimeType. mime_type bestAudio = Inr mimeType \<and>
         field (body (snd (download_info_ytdl lib env videoId))) ''format'' =
           (if truthy mimeType then mimeType else JStr ''audio/webm'')))"
proof (intro conjI impI)
  assume a: "required videoId = Some vid \<and> status (snd (download_info env videoId)) = 200"
  then obtain info' b where b: "download_info_body vid info' = Inr b"
    and r: "download_info env videoId = ([GetVideoInfo (video_args vid)], ok b)"
    using download_info_success [of videoId vid env] by blast
  from r show "fst (download_info env videoId) = [GetVideoInfo (video_args vid)]"
    by simp
  from download_info_body_constants [OF b] r
  show "field (body (snd (download_info env videoId))) ''downloadUrl'' =
        JStr (''https://www.youtube.com/watch?v='' @ vid)"
    and "field (body (snd (download_info env videoId))) ''quality'' = JStr ''best''"
    and "field (body (snd (download_info env videoId))) ''format'' = JStr ''audio/mp4''"
    by (simp_all add: ok_def)
next
  assume a: "required videoId = Some vid \<and> getVideoInfo env (video_args vid) = Inr metadata \<and>
    parse_metadata env metadata = Inr info \<and> \<not> nullish info"
  with download_info_reply [of videoId vid env metadata info]
  show "status (snd (download_info env videoId)) = 200"
    and "field (body (snd (download_info env videoId))) ''title'' = field info ''title''"
    and "field (body (snd (download_info env videoId))) ''lengthSeconds'' =
        (if truthy (field info ''duration'') then field info ''duration'' else JNum 0)"
    by (simp_all add: field_cons js_or_def)
next
  assume a: "required videoId = Some vid \<and> validateURL lib (video_url vid) \<and>
    getInfo lib (video_url vid) = Inr details \<and>
    filterFormats lib (field details ''formats'') ''audioonly'' = Inr audioFormats \<and>
    reduce_best env JNull audioFormats = Inr bestAudio \<and>
    status (snd (download_info_ytdl lib env videoId)) = 200"
  then obtain b where b: "ytdl_body env vid details bestAudio = Inr b"
    and r: "download_info_ytdl lib env videoId = ([GetInfo (video_url vid)], ok b)"
    using ytdl_success [of videoId vid lib details audioFormats env bestAudio] by blast
  from r show "fst (download_info_ytdl lib env videoId) = [GetInfo (video_url vid)]"
    by simp
  from ytdl_body_fields [OF b] r
  show "field (body (snd (download_info_ytdl lib env videoId))) ''title'' =
        field (field details ''videoDetails'') ''title''"
    and "field (body (snd (download_info_ytdl lib env videoId))) ''lengthSeconds'' =
        field (field details ''videoDetails'') ''lengthSeconds''"
    and "field (body (snd (download_info_ytdl lib env videoId))) ''downloadUrl'' =
        (if truthy (field bestAudio ''url'') then field bestAudio ''url'' else JNull)"
    and "field (body (snd (download_info_ytdl lib env videoId))) ''quality'' =
        (if truthy (field bestAudio ''audioBitrate'') then field bestAudio ''audioBitrate''
         else JStr ''unknown'')"
    and "\<exists>mimeType. mime_type bestAudio = Inr mimeType \<and>
         field (body (snd (download_info_ytdl lib env videoId))) ''format'' =
           (if truthy mimeType then mimeType else JStr ''audio/webm'')"
    by (simp_all add: ok_def)
qed


theorem download_info_counterexample:
  "download_info unguarded_env (Some ''abc123'') =
     ([GetVideoInfo (video_args ''abc123'')],
      \<lparr>status = 200, body = JObj [
         (''videoId'', JStr ''abc123''),
         (''title'', JStr []),
         (''author'', JStr ''Unknown''),
         (''lengthSeconds'', JNum (- 3)),
         (''downloadUrl'', JStr ''https://www.youtube.com/watch?v=abc123''),
         (''quality'', JStr ''best''),
         (''format'', JStr ''audio/mp4'')]\<rparr>) \<and>
   download_info_ytdl sample_ytdl song_env (Some ''abc123'') =
     ([GetInfo ''https://www.youtube.com/watch?v=abc123''],
      \<lparr>status = 200, body = JObj [
         (''videoId'', JStr ''abc123''),
         (''title'', JStr ''Song''),
         (''author'', JStr ''Band''),
         (''lengthSeconds'', JStr ''215''),
         (''downloadUrl'', JStr ''https://rr1.googlevideo.com/videoplayback?itag=251''),
         (''quality'', JNum 160),
         (''format'', JStr ''audio/webm'')]\<rparr>)"
proof -
  have g: "js_gt song_env (JNum 160) (JNum 128)"
    by (simp add: js_gt_def ToPrimitive_def ToNumber_def)
  have r: "reduce_best song_env JNull [aac_format, opus_format] = Inr opus_format"
    by (simp add: better_def bindE_def aac_format_def opus_format_def g)
  have m: "mime_type opus_format = Inr (JStr ''audio/webm'')"
    by (simp add: mime_type_def opus_format_def nullish_def bindE_def)
  have b: "ytdl_body song_env ''abc123'' song_info opus_format = Inr (JObj [
         (''videoId'', JStr ''abc123''),
         (''title'', JStr ''Song''),
         (''author'', JStr ''Band''),
         (''lengthSeconds'', JStr ''215''),
         (''downloadUrl'', JStr ''https://rr1.googlevideo.com/videoplayback?itag=251''),
         (''quality'', JNum 160),
         (''format'', JStr ''audio/webm'')])"
    unfolding ytdl_body_def m
    by (simp add: song_info_def bindE_def js_or_def opus_format_def opt_prop_def)
  have f: "get song_info ''formats'' = Inr (JArr [aac_format, opus_format])"
    by (simp add: song_info_def)
  have y: "download_info_ytdl sample_ytdl song_env (Some ''abc123'') =
     ([GetInfo ''https://www.youtube.com/watch?v=abc123''],
      \<lparr>status = 200, body = JObj [
         (''videoId'', JStr ''abc123''),
         (''title'', JStr ''Song''),
         (''author'', JStr ''Band''),
         (''lengthSeconds'', JStr ''215''),
         (''downloadUrl'', JStr ''https://rr1.googlevideo.com/videoplayback?itag=251''),
         (''quality'', JNum 160),
         (''format'', JStr ''audio/webm'')]\<rparr>)"
    by (simp add: download_info_ytdl_def required_def sample_ytdl_def bindE_def f r b ok_def
        video_url_def del: reduce_best.simps)
  have s: "download_info unguarded_env (Some ''abc123'') =
     ([GetVideoInfo (video_args ''abc123'')],
      \<lparr>status = 200, body = JObj [
         (''videoId'', JStr ''abc123''),
         (''title'', JStr []),
         (''author'', JStr ''Unknown''),
         (''lengthSeconds'', JNum (- 3)),
         (''downloadUrl'', JStr ''https://www.youtube.com/watch?v=abc123''),
         (''quality'', JStr ''best''),
         (''format'', JStr ''audio/mp4'')]\<rparr>)"
    by (simp add: download_info_def required_def unguarded_env_def sample_env_def unguarded_def
        parse_metadata_def bindE_def download_info_body_def js_or_def ok_def video_url_def)
  from s y show ?thesis by simp
qed

theorem download_info_passes_metadata_witness:
  "required (Some ''abc123'') = Some ''abc123'' \<and>
   getVideoInfo song_env (video_args ''abc123'') = Inr song \<and>
   parse_metadata song_env song = Inr song \<and>
   validateURL sample_ytdl (video_url ''abc123'') \<and>
   getInfo sample_ytdl (video_url ''abc123'') = Inr song_info \<and>
   filterFormats sample_ytdl (field song_info ''formats'') ''audioonly'' =
     Inr [aac_format, opus_format] \<and>
   reduce_best song_env JNull [aac_format, opus_format] = Inr opus_format \<and>
   fst (download_info song_env (Some ''abc123'')) = [GetVideoInfo (video_args ''abc123'')] \<and>
   status (snd (download_info song_env (Some ''abc123''))) = 200 \<and>
   field (body (snd (download_info song_env (Some ''abc123'')))) ''title'' = JStr ''Song'' \<and>
   field (body (snd (download_info song_env (Some ''abc123'')))) ''lengthSeconds'' = JNum 215 \<and>
   field (body (snd (download_info song_env (Some ''abc123'')))) ''downloadUrl'' =
     JStr ''https://www.youtube.com/watch?v=abc123'' \<and>
   field (body (snd (download_info song_env (Some ''abc123'')))) ''quality'' = JStr ''best'' \<and>
   field (body (snd (download_info song_env (Some ''abc123'')))) ''format'' = JStr ''audio/mp4'' \<and>
   fst (download_info_ytdl sample_ytdl song_env (Some ''abc123'')) =
     [GetInfo (video_url ''abc123'')] \<and>
   status (snd (download_info_ytdl sample_ytdl song_env (Some ''abc123''))) = 200 \<and>
   field (body (snd (download_info_ytdl sample_ytdl song_env (Some ''abc123'')))) ''title'' =
     JStr ''Song'' \<and>
   field (body (snd (download_info_ytdl sample_ytdl song_env (Some ''abc123''))))
     ''lengthSeconds'' = JStr ''215'' \<and>
   field (body (snd (download_info_ytdl sample_ytdl song_env (Some ''abc123''))))
     ''downloadUrl'' = JStr ''https://rr1.googlevideo.com/videoplayback?itag=251'' \<and>
   field (body (snd (download_info_ytdl sample_ytdl song_env (Some ''abc123''))))
     ''quality'' = JNum 160 \<and>
   field (body (snd (download_info_ytdl sample_ytdl song_env (Some ''abc123''))))
     ''format'' = JStr ''audio/webm''"
proof -
  let ?q = "Some ''abc123''"
  have req: "required ?q = Some ''abc123''"
    by (simp add: required_def)
  have c: "getVideoInfo song_env (video_args ''abc123'') = Inr song"
    by (simp add: song_env_def sample_env_def)
  have p: "parse_metadata song_env song = Inr song"
    by (simp add: parse_metadata_def song_def)
  have n: "\<not> nullish song"
    by (simp add: nullish_def song_def)
  have v: "validateURL sample_ytdl (video_url ''abc123'')"
    and i: "getInfo sample_ytdl (video_url ''abc123'') = Inr song_info"
    and a: "filterFormats sample_ytdl (field song_info ''formats'') ''audioonly'' =
      Inr [aac_format, opus_format]"
    by (simp_all add: sample_ytdl_def)
  have g: "js_gt song_env (JNum 160) (JNum 128)"
    by (simp add: js_gt_def ToPrimitive_def ToNumber_def)
  have r: "reduce_best song_env JNull [aac_format, opus_format] = Inr opus_format"
    by (simp add: better_def bindE_def aac_format_def opus_format_def g)
  have m: "mime_type opus_format = Inr (JStr ''audio/webm'')"
    by (simp add: mime_type_def opus_format_def nullish_def bindE_def)
  have f: "get song_info ''formats'' = Inr (JArr [aac_format, opus_format])"
    by (simp add: song_info_def)
  have b: "\<exists>b. ytdl_body song_env ''abc123'' song_info opus_format = Inr b"
    unfolding ytdl_body_def m by (simp add: song_info_def bindE_def)
  then obtain b where b': "ytdl_body song_env ''abc123'' song_info opus_format = Inr b" ..
  have y: "status (snd (download_info_ytdl sample_ytdl song_env ?q)) = 200"
    by (simp add: download_info_ytdl_def required_def sample_ytdl_def bindE_def f r b' ok_def
        del: reduce_best.simps)
  have fs: "field song ''title'' = JStr ''Song''" "field song ''duration'' = JNum 215"
    "field (field song_info ''videoDetails'') ''title'' = JStr ''Song''"
    "field (field song_info ''videoDetails'') ''lengthSeconds'' = JStr ''215''"
    "field opus_format ''url'' = JStr ''https://rr1.googlevideo.com/videoplayback?itag=251''"
    "field opus_format ''audioBitrate'' = JNum 160"
    by (simp_all add: song_def song_info_def opus_format_def field_def opt_prop_def)
  note inst = download_info_passes_metadata [where videoId = ?q and vid = "''abc123''"
      and env = song_env and metadata = song and info = song and lib = sample_ytdl
      and details = song_info and audioFormats = "[aac_format, opus_format]"
      and bestAudio = opus_format]
  from inst req c p n have s: "status (snd (download_info song_env ?q)) = 200"
    by blast
  from inst req c p n fs
  have t: "field (body (snd (download_info song_env ?q))) ''title'' = JStr ''Song''"
    and l: "field (body (snd (download_info song_env ?q))) ''lengthSeconds'' = JNum 215"
    by simp_all
  from inst req s
  have k: "fst (download_info song_env ?q) = [GetVideoInfo (video_args ''abc123'')]"
    and u: "field (body (snd (download_info song_env ?q))) ''downloadUrl'' =
      JStr ''https://www.youtube.com/watch?v=abc123''"
    and q: "field (body (snd (download_info song_env ?q))) ''quality'' = JStr ''best''"
    and fm: "field (body (snd (download_info song_env ?q))) ''format'' = JStr ''audio/mp4''"
    by simp_all
  from inst req v i a r y fs m
  have k': "fst (download_info_ytdl sample_ytdl song_env ?q) = [GetInfo (video_url ''abc123'')]"
    and t': "field (body (snd (download_info_ytdl sample_ytdl song_env ?q))) ''title'' =
      JStr ''Song''"
    and l': "field (body (snd (download_info_ytdl sample_ytdl song_env ?q))) ''lengthSeconds'' =
      JStr ''215''"
    and u': "field (body (snd (download_info_ytdl sample_ytdl song_env ?q))) ''downloadUrl'' =
      JStr ''https://rr1.googlevideo.com/videoplayback?itag=251''"
    and q': "field (body (snd (download_info_ytdl sample_ytdl song_env ?q))) ''quality'' =
      JNum 160"
    and fm': "field (body (snd (download_info_ytdl sample_ytdl song_env ?q))) ''format'' =
      JStr ''audio/webm''"
    by simp_all
  from req c p v i a r k s t l u q fm k' y t' l' u' q' fm' show ?thesis
    by blast
qed

section \<open>Defaults of optional fields\<close>

lemma video_entry_fields:
  assumes "video_entry env video = Inr v" and "v \<noteq> JNull"
  shows "field v ''title'' \<noteq> JUndefined \<and> field v ''author'' \<noteq> JUndefined \<and>
         field v ''duration'' \<noteq> JUndefined \<and> field v ''thumbnailUrl'' \<noteq> JUndefined"
  using video_entry_values [OF assms] by (simp add: js_or_defined)

lemma process_entries_fields:
  assumes "process_entries env entries = Inr videos" and "v \<in> set videos"
  shows "field v ''title'' \<noteq> JUndefined \<and> field v ''author'' \<noteq> JUndefined \<and>
         field v ''duration'' \<noteq> JUndefined \<and> field v ''thumbnailUrl'' \<noteq> JUndefined"
proof -
  from assms obtain xs vs where "mapE (video_entry env) xs = Inr vs" "v \<in> set vs" "v \<noteq> JNull"
    by (cases entries) (auto simp: process_entries_def bindE_def split: sum.splits)
  with mapE_set [of "video_entry env" xs vs] obtain video where "video_entry env video = Inr v"
    by blast
  with \<open>v \<noteq> JNull\<close> video_entry_fields show ?thesis by blast
qed

lemma videos_body_fields:
  assumes "videos_body env pid playlistData entries = Inr b"
  shows "field b ''title'' \<noteq> JUndefined \<and> field b ''itemCount'' \<noteq> JUndefined \<and>
     (\<exists>videos. field b ''videos'' = JArr videos \<and>
        (\<forall>v\<in>set videos. field v ''title'' \<noteq> JUndefined \<and> field v ''author'' \<noteq> JUndefined \<and>
           field v ''duration'' \<noteq> JUndefined \<and> field v ''thumbnailUrl'' \<noteq> JUndefined))"
proof -
  from assms obtain videos title where
    p: "process_entries env entries = Inr videos" and
    b: "b = JObj [(''playlistId'', JStr pid), (''title'', js_or title (JStr [])),
                  (''itemCount'', JNum (of_nat (length videos))), (''videos'', JArr videos)]"
    by (auto simp: videos_body_def bindE_def split: sum.splits)
  have "field b ''videos'' = JArr videos" "field b ''title'' \<noteq> JUndefined"
    "field b ''itemCount'' \<noteq> JUndefined"
    by (simp_all add: b field_cons js_or_defined)
  with process_entries_fields [OF p] show ?thesis by blast
qed

lemma playlist_summary_fields:
  assumes "playlist_summary env pid playlistData = Inr b"
  shows "field b ''title'' \<noteq> JUndefined \<and> field b ''description'' \<noteq> JUndefined"
  using assms
  by (auto simp: playlist_summary_def bindE_def field_cons js_or_defined split: sum.splits)

lemma playlist_info_ok:
  assumes "status (snd (playlist_info env playlistId)) = 200"
  shows "\<exists>pid playlistData b. playlist_summary env pid playlistData = Inr b \<and>
           snd (playlist_info env playlistId) = ok b"
  using assms
  by (auto simp: playlist_info_def bindE_def failure_status missing_status
      split: option.splits sum.splits)

lemma download_info_ok:
  assumes "status (snd (download_info env videoId)) = 200"
  shows "\<exists>vid info b. download_info_body vid info = Inr b \<and>
           snd (download_info env videoId) = ok b"
  using assms
  by (auto simp: download_info_def bindE_def failure_status missing_status
      split: option.splits sum.splits)

lemma download_info_body_fields:
  assumes "download_info_body vid info = Inr b"
  shows "field b ''author'' \<noteq> JUndefined \<and> field b ''lengthSeconds'' \<noteq> JUndefined"
  using assms
  by (auto simp: download_info_body_def bindE_def field_cons js_or_defined split: sum.splits)

lemma playlist_summary_values:
  assumes "playlist_summary env pid playlistData = Inr b"
  shows "field b ''title'' = js_or (field playlistData ''title'') (JStr ''Unknown Playlist'') \<and>
         field b ''description'' = js_or (field playlistData ''description'') (JStr [])"
  using assms
  by (auto simp: playlist_summary_def bindE_def field_cons split: sum.splits
      dest!: get_Inr_field)

lemma videos_body_title:
  assumes "videos_body env pid playlistData entries = Inr b"
  shows "field b ''title'' = js_or (field playlistData ''title'') (JStr [])"
  using assms
  by (auto simp: videos_body_def bindE_def field_cons split: sum.splits dest!: get_Inr_field)

lemma playlist_info_values:
  assumes "required q = Some pid" and "getVideoInfo env (playlist_args pid) = Inr metadata"
    and "parse_metadata env metadata = Inr playlistData"
    and "status (snd (playlist_info env q)) = 200"
  shows "field (body (snd (playlist_info env q))) ''title'' =
           js_or (field playlistData ''title'') (JStr ''Unknown Playlist'') \<and>
         field (body (snd (playlist_info env q))) ''description'' =
           js_or (field playlistData ''description'') (JStr [])"
proof (cases "playlist_summary env pid playlistData")
  case (Inl e)
  with assms show ?thesis
    by (simp add: playlist_info_def bindE_def failure_status)
next
  case (Inr b)
  with assms have "snd (playlist_info env q) = ok b"
    by (simp add: playlist_info_def bindE_def)
  with playlist_summary_values [OF Inr] show ?thesis
    by (simp add: ok_def)
qed

lemma playlist_videos_values:
  assumes "required q = Some pid" and "getVideoInfo env (playlist_args pid) = Inr metadata"
    and "parse_metadata env metadata = Inr playlistData"
    and "status (snd (playlist_videos env q)) = 200"
  shows "field (body (snd (playlist_videos env q))) ''title'' =
           js_or (field playlistData ''title'') (JStr [])"
proof -
  let ?r = "bindE (get playlistData ''entries'') (\<lambda>entries.
              videos_body env pid playlistData (js_or entries (JArr [])))"
  have h: "snd (playlist_videos env q) =
      (case ?r of Inl error \<Rightarrow> failure ''Failed to fetch playlist videos'' error | Inr b \<Rightarrow> ok b)"
    using assms(1-3) by (simp add: playlist_videos_def bindE_def)
  show ?thesis
  proof (cases ?r)
    case (Inl e)
    with h assms(4) show ?thesis by (simp add: failure_status)
  next
    case (Inr b)
    then obtain entries where "videos_body env pid playlistData entries = Inr b"
      by (auto simp: bindE_def split: sum.splits)
    with videos_body_title have "field b ''title'' = js_or (field playlistData ''title'') (JStr [])"
      by blast
    with h Inr show ?thesis by (simp add: ok_def)
  qed
qed

text \<open>
  Claim C2, as amended. In a reply with status 200 of src/server.js, every field that
  the handler builds with a fallback chain is defined: \<open>title\<close> and
  \<open>description\<close> of playlist-info; \<open>title\<close> and \<open>itemCount\<close> of
  playlist-videos and \<open>title\<close>, \<open>author\<close>, \<open>duration\<close> and
  \<open>thumbnailUrl\<close> of each of its entries; \<open>author\<close> and \<open>lengthSeconds\<close> of
  download-info. Each of them but \<open>itemCount\<close> and \<open>thumbnailUrl\<close> is the
  extractor's value when that is truthy and its default otherwise (\<open>Unknown Playlist\<close>,
  \<open>Unknown\<close>, \<open>0\<close>, the empty string). The \<open>title\<close> of download-info and the
  \<open>id\<close> of an entry are the extractor's values unchanged, \<open>undefined\<close> when the
  extractor omits them.
\<close>

theorem fallback_chains_are_defined:
  "(status (snd (playlist_info env q)) = 200 \<longrightarrow>
      field (body (snd (playlist_info env q))) ''title'' \<noteq> JUndefined \<and>
      field (body (snd (playlist_info env q))) ''description'' \<noteq> JUndefined) \<and>
   (status (snd (playlist_videos env q)) = 200 \<longrightarrow>
      field (body (snd (playlist_videos env q))) ''title'' \<noteq> JUndefined \<and>
      field (body (snd (playlist_videos env q))) ''itemCount'' \<noteq> JUndefined \<and>
      (\<exists>videos. field (body (snd (playlist_videos env q))) ''videos'' = JArr videos \<and>
         (\<forall>v\<in>set videos. field v ''title'' \<noteq> JUndefined \<and> field v ''author'' \<noteq> JUndefined \<and>
            field v ''duration'' \<noteq> JUndefined \<and> field v ''thumbnailUrl'' \<noteq> JUndefined))) \<and>
   (status (snd (download_info env q)) = 200 \<longrightarrow>
      field (body (snd (download_info env q))) ''author'' \<noteq> JUndefined \<and>
      field (body (snd (download_info env q))) ''lengthSeconds'' \<noteq> JUndefined) \<and>
   (required q = Some pid \<and> getVideoInfo env (playlist_args pid) = Inr payload \<and>
    parse_metadata env payload = Inr playlistData \<longrightarrow>
      (status (snd (playlist_info env q)) = 200 \<longrightarrow>
         field (body (snd (playlist_info env q))) ''title'' =
           (if truthy (field playlistData ''title'') then field playlistData ''title''
            else JStr ''Unknown Playlist'') \<and>
         field (body (snd (playlist_info env q))) ''description'' =
           (if truthy (field playlistData ''description'') then field playlistData ''description''
            else JStr [])) \<and>
      (status (snd (playlist_videos env q)) = 200 \<longrightarrow>
         field (body (snd (playlist_videos env q))) ''title'' =
           (if truthy (field playlistData ''title'') then field playlistData ''title''
            else JStr []))) \<and>
   (required q = Some vid \<and> getVideoInfo env (video_args vid) = Inr metadata \<and>
    parse_metadata env metadata = Inr info \<and> \<not> nullish info \<longrightarrow>
      status (snd (download_info env q)) = 200 \<and>
      field (body (snd (download_info env q))) ''title'' = field info ''title'' \<and>
      field (body (snd (download_info env q))) ''author'' =
        (if truthy (field info ''uploader'') then field info ''uploader''
         else if truthy (field info ''channel'') then field info ''channel''
         else JStr ''Unknown'') \<and>
      field (body (snd (download_info env q))) ''lengthSeconds'' =
        (if truthy (field info ''duration'') then field info ''duration'' else JNum 0)) \<and>
   (video_entry env video = Inr v \<and> v \<noteq> JNull \<longrightarrow>
      field v ''id'' = field video ''id'' \<and>
      field v ''title'' =
        (if truthy (field video ''title'') then field video ''title'' else JStr ''Unknown'') \<and>
      field v ''author'' =
        (if truthy (field video ''uploader'') then field video ''uploader''
         else if truthy (field video ''channel'') then field video ''channel''
         else if truthy (field video ''uploader_id'') then field video ''uploader_id''
         else JStr ''Unknown'') \<and>
      field v ''duration'' =
        (if truthy (field video ''duration'') then field video ''duration'' else JNum 0))"
proof (intro conjI impI)
  assume "status (snd (playlist_info env q)) = 200"
  then obtain pid playlistData b where "playlist_summary env pid playlistData = Inr b"
    "snd (playlist_info env q) = ok b"
    using playlist_info_ok by blast
  with playlist_summary_fields
  show "field (body (snd (playlist_info env q))) ''title'' \<noteq> JUndefined"
    and "field (body (snd (playlist_info env q))) ''description'' \<noteq> JUndefined"
    by (simp_all add: ok_def)
next
  assume "status (snd (playlist_videos env q)) = 200"
  then obtain pid playlistData entries b where "videos_body env pid playlistData entries = Inr b"
    "snd (playlist_videos env q) = ok b"
    using playlist_videos_ok by blast
  with videos_body_fields [of env pid playlistData entries b]
  show "field (body (snd (playlist_videos env q))) ''title'' \<noteq> JUndefined"
    and "field (body (snd (playlist_videos env q))) ''itemCount'' \<noteq> JUndefined"
    and "\<exists>videos. field (body (snd (playlist_videos env q))) ''videos'' = JArr videos \<and>
         (\<forall>v\<in>set videos. field v ''title'' \<noteq> JUndefined \<and> field v ''author'' \<noteq> JUndefined \<and>
            field v ''duration'' \<noteq> JUndefined \<and> field v ''thumbnailUrl'' \<noteq> JUndefined)"
    by (simp_all add: ok_def)
next
  assume "status (snd (download_info env q)) = 200"
  then obtain vid' info' b where "download_info_body vid' info' = Inr b"
    "snd (download_info env q) = ok b"
    using download_info_ok by blast
  with download_info_body_fields
  show "field (body (snd (download_info env q))) ''author'' \<noteq> JUndefined"
    and "field (body (snd (download_info env q))) ''lengthSeconds'' \<noteq> JUndefined"
    by (simp_all add: ok_def)
next
  assume "required q = Some pid \<and> getVideoInfo env (playlist_args pid) = Inr payload \<and>
    parse_metadata env payload = Inr playlistData"
    and "status (snd (playlist_info env q)) = 200"
  with playlist_info_values [of q pid env payload playlistData]
  show "field (body (snd (playlist_info env q))) ''title'' =
           (if truthy (field playlistData ''title'') then field playlistData ''title''
            else JStr ''Unknown Playlist'')"
    and "field (body (snd (playlist_info env q))) ''description'' =
           (if truthy (field playlistData ''description'') then field playlistData ''description''
            else JStr [])"
    by (simp_all add: js_or_def)
next
  assume "required q = Some pid \<and> getVideoInfo env (playlist_args pid) = Inr payload \<and>
    parse_metadata env payload = Inr playlistData"
    and "status (snd (playlist_videos env q)) = 200"
  with playlist_videos_values [of q pid env payload playlistData]
  show "field (body (snd (playlist_videos env q))) ''title'' =
           (if truthy (field playlistData ''title'') then field playlistData ''title''
            else JStr [])"
    by (simp add: js_or_def)
next
  assume a: "required q = Some vid \<and> getVideoInfo env (video_args vid) = Inr metadata \<and>
    parse_metadata env metadata = Inr info \<and> \<not> nullish info"
  with download_info_reply [of q vid env metadata info]
  show "status (snd (download_info env q)) = 200"
    and "field (body (snd (download_info env q))) ''title'' = field info ''title''"
    and "field (body (snd (download_info env q))) ''author'' =
        (if truthy (field info ''uploader'') then field info ''uploader''
         else if truthy (field info ''channel'') then field info ''channel''
         else JStr ''Unknown'')"
    and "field (body (snd (download_info env q))) ''lengthSeconds'' =
        (if truthy (field info ''duration'') then field info ''duration'' else JNum 0)"
    by (simp_all add: field_cons js_or_def)
next
  assume a: "video_entry env video = Inr v \<and> v \<noteq> JNull"
  with video_entry_values [of env video v]
  show "field v ''id'' = field video ''id''"
    and "field v ''title'' =
        (if truthy (field video ''title'') then field video ''title'' else JStr ''Unknown'')"
    and "field v ''author'' =
        (if truthy (field video ''uploader'') then field video ''uploader''
         else if truthy (field video ''channel'') then field video ''channel''
         else if truthy (field video ''uploader_id'') then field video ''uploader_id''
         else JStr ''Unknown'')"
    and "field v ''duration'' =
        (if truthy (field video ''duration'') then field video ''duration'' else JNum 0)"
    by (simp_all add: js_or_def)
qed

theorem fallback_chains_counterexample:
  "status (snd (download_info untitled_env (Some ''abc123''))) = 200 \<and>
   field (body (snd (download_info untitled_env (Some ''abc123'')))) ''title'' = JUndefined \<and>
   status (snd (playlist_videos anonymous_env (Some ''PL1''))) = 200 \<and>
   field (body (snd (playlist_videos anonymous_env (Some ''PL1'')))) ''videos'' =
     JArr [JObj [(''id'', JUndefined), (''title'', JStr ''A''), (''author'', JStr ''Unknown''),
                 (''duration'', JNum 0), (''thumbnailUrl'', JStr [])]]"
  by (simp add: download_info_def playlist_videos_def required_def untitled_env_def
      anonymous_env_def sample_env_def untitled_def anonymous_entries_def parse_metadata_def
      bindE_def download_info_body_def videos_body_def process_entries_def video_entry_def
      video_thumbnail_def js_or_def ok_def field_def opt_prop_def)

theorem fallback_chains_are_defined_witness:
  "status (snd (download_info untitled_env (Some ''abc123''))) = 200 \<and>
   field (body (snd (download_info untitled_env (Some ''abc123'')))) ''author'' = JStr ''Band'' \<and>
   field (body (snd (download_info untitled_env (Some ''abc123'')))) ''lengthSeconds'' = JNum 215 \<and>
   field (body (snd (download_info untitled_env (Some ''abc123'')))) ''title'' =
     field untitled ''title'' \<and>
   status (snd (playlist_videos anonymous_env (Some ''PL1''))) = 200 \<and>
   field (body (snd (playlist_videos anonymous_env (Some ''PL1'')))) ''title'' = JStr ''Mix'' \<and>
   (\<exists>videos. field (body (snd (playlist_videos anonymous_env (Some ''PL1'')))) ''videos'' =
        JArr videos \<and>
      (\<forall>v\<in>set videos. field v ''title'' \<noteq> JUndefined \<and> field v ''author'' \<noteq> JUndefined \<and>
         field v ''duration'' \<noteq> JUndefined \<and> field v ''thumbnailUrl'' \<noteq> JUndefined)) \<and>
   status (snd (playlist_info anonymous_env (Some ''PL1''))) = 200 \<and>
   field (body (snd (playlist_info anonymous_env (Some ''PL1'')))) ''description'' = JStr []"
proof -
  have req: "required (Some ''abc123'') = Some ''abc123''"
    and req': "required (Some ''PL1'') = Some ''PL1''"
    by (simp_all add: required_def)
  have c: "getVideoInfo untitled_env (video_args ''abc123'') = Inr untitled"
    by (simp add: untitled_env_def sample_env_def)
  have p: "parse_metadata untitled_env untitled = Inr untitled"
    by (simp add: parse_metadata_def untitled_def)
  have n: "\<not> nullish untitled"
    by (simp add: nullish_def untitled_def)
  have c': "getVideoInfo anonymous_env (playlist_args ''PL1'') = Inr anonymous_entries"
    by (simp add: anonymous_env_def sample_env_def)
  have p': "parse_metadata anonymous_env anonymous_entries = Inr anonymous_entries"
    by (simp add: parse_metadata_def anonymous_entries_def)
  have f: "field untitled ''uploader'' = JStr ''Band''" "field untitled ''duration'' = JNum 215"
    "field anonymous_entries ''title'' = JStr ''Mix''"
    "field anonymous_entries ''description'' = JUndefined"
    by (simp_all add: untitled_def anonymous_entries_def field_def opt_prop_def)
  have s: "status (snd (playlist_videos anonymous_env (Some ''PL1''))) = 200"
    by (simp add: playlist_videos_def required_def anonymous_env_def sample_env_def
      anonymous_entries_def parse_metadata_def bindE_def videos_body_def process_entries_def
      video_entry_def video_thumbnail_def js_or_def ok_def)
  have s': "status (snd (playlist_info anonymous_env (Some ''PL1''))) = 200"
    by (simp add: playlist_info_def required_def anonymous_env_def sample_env_def
      anonymous_entries_def parse_metadata_def bindE_def playlist_summary_def
      playlist_thumbnail_def playlist_count_def js_or_def ok_def)
  note i1 = fallback_chains_are_defined [where env = untitled_env and q = "Some ''abc123''"
      and vid = "''abc123''" and metadata = untitled and info = untitled]
  note i2 = fallback_chains_are_defined [where env = anonymous_env and q = "Some ''PL1''"
      and pid = "''PL1''" and payload = anonymous_entries and playlistData = anonymous_entries]
  from i1 req c p n have d: "status (snd (download_info untitled_env (Some ''abc123''))) = 200"
    and t: "field (body (snd (download_info untitled_env (Some ''abc123'')))) ''title'' =
     field untitled ''title''"
    and a: "field (body (snd (download_info untitled_env (Some ''abc123'')))) ''author'' =
        (if truthy (field untitled ''uploader'') then field untitled ''uploader''
         else if truthy (field untitled ''channel'') then field untitled ''channel''
         else JStr ''Unknown'')"
    and l: "field (body (snd (download_info untitled_env (Some ''abc123'')))) ''lengthSeconds'' =
        (if truthy (field untitled ''duration'') then field untitled ''duration'' else JNum 0)"
    by blast+
  from a l f have a': "field (body (snd (download_info untitled_env (Some ''abc123'')))) ''author'' = JStr ''Band''"
    and l': "field (body (snd (download_info untitled_env (Some ''abc123'')))) ''lengthSeconds'' = JNum 215"
    by simp_all
  from i2 s have vs: "\<exists>videos. field (body (snd (playlist_videos anonymous_env (Some ''PL1'')))) ''videos'' =
        JArr videos \<and>
      (\<forall>v\<in>set videos. field v ''title'' \<noteq> JUndefined \<and> field v ''author'' \<noteq> JUndefined \<and>
         field v ''duration'' \<noteq> JUndefined \<and> field v ''thumbnailUrl'' \<noteq> JUndefined)"
    by blast
  from i2 req' c' p' s have "field (body (snd (playlist_videos anonymous_env (Some ''PL1'')))) ''title'' =
           (if truthy (field anonymous_entries ''title'') then field anonymous_entries ''title''
            else JStr [])"
    by blast
  with f have v: "field (body (snd (playlist_videos anonymous_env (Some ''PL1'')))) ''title'' = JStr ''Mix''"
    by simp
  from i2 req' c' p' s' have "field (body (snd (playlist_info anonymous_env (Some ''PL1'')))) ''description'' =
           (if truthy (field anonymous_entries ''description'') then field anonymous_entries ''description''
            else JStr [])"
    by blast
  with f have de: "field (body (snd (playlist_info anonymous_env (Some ''PL1'')))) ''description'' = JStr []"
    by simp
  from d a' l' t s v vs s' de show ?thesis by blast
qed

end
